theory Spec2Isabelle
  imports Complex_Main "HOL-Library.Char_ord" "HOL-Library.List_Lexorder" "HOL-Library.Multiset"
begin

section \<open>The audio transcription pipeline of \<^verbatim>\<open>src/app.ts\<close>\<close>

text \<open>
  The program downloads an audio file attached to a chat message, transcribes it with an
  external speech-to-text service (after splitting it with FFmpeg when it is larger than
  25 MB), posts the text back and removes its temporary files.

  Everything outside the program (the HTTP download, the file system, FFmpeg, the
  transcription service, the chat client) is an oracle of the record \<open>env\<close>; the program
  threads a \<open>world\<close>: the part of the file system it touches and the trace of the calls it
  made. A JavaScript exception is a value \<open>Inl e\<close> of the result, so every \<^verbatim>\<open>throw\<close>,
  rejected promise, \<^verbatim>\<open>catch\<close> and \<^verbatim>\<open>finally\<close> is a branch of the model.

  Strings are byte sequences (UTF-8), compared as JavaScript compares them on ASCII text:
  position by position, a proper prefix first. The informational \<^verbatim>\<open>console.log\<close> lines and
  the dump of FFmpeg's output streams do not influence control flow and are left out; the
  \<^verbatim>\<open>console.error\<close> of each \<^verbatim>\<open>catch\<close> block is kept as a call of the trace.
\<close>

subsection \<open>Data\<close>

text \<open>A thrown value: an \<^verbatim>\<open>Error\<close> object, reduced to its message.\<close>

datatype error = Error (message: string)

text \<open>
  A path of the file system holds a regular file (of some size in bytes) or a directory
  (its entry names, in the order \<^verbatim>\<open>readdir\<close> yields them).
\<close>

datatype node = File nat | Dir "string list"

text \<open>The calls a run makes, in the order it makes them.\<close>

datatype call =
    is_Download: Download string string
  | is_Stat: Stat string
  | is_Mkdir: Mkdir string
  | is_SplitAudioFile: SplitAudioFile string string
  | is_Ffprobe: Ffprobe string
  | is_Ffmpeg: Ffmpeg string string
  | is_Readdir: Readdir string
  | is_Transcribe: Transcribe string
  | is_PostMessage: PostMessage string string
  | is_CleanupFiles: CleanupFiles string "string option"
  | is_Access: Access string
  | is_Unlink: Unlink string
  | is_Rm: Rm string
  | is_Say: Say string
  | is_ConsoleError: ConsoleError string error

record world =
  fs :: "string \<Rightarrow> node option"
  trace :: "call list"

text \<open>
  What the HTTP download does: the whole body arrives (\<open>n\<close> bytes); the request itself is
  rejected, before the write stream is opened; or the stream breaks after \<open>n\<close> bytes were
  written.
\<close>

datatype fetch_outcome =
    Fetched nat
  | RequestFailed error
  | StreamFailed nat error

text \<open>
  What an FFmpeg run does: it ends, having written the named files into the output
  directory (in this order), or it reports an error, having written some files.
\<close>

datatype ffmpeg_outcome =
    FfmpegEnd "string list"
  | FfmpegError "string list" error

record env =
  fetch :: "string \<Rightarrow> fetch_outcome"
  stat_fault :: "string \<Rightarrow> error option"
  mkdir_fault :: "string \<Rightarrow> error option"
  ffprobe :: "string \<Rightarrow> error option"
  ffmpeg :: "string \<Rightarrow> string \<Rightarrow> ffmpeg_outcome"
  readdir_fault :: "string \<Rightarrow> error option"
  transcribe :: "string \<Rightarrow> error + string"
  postMessage :: "string \<Rightarrow> string \<Rightarrow> error option"
  unlink_fault :: "string \<Rightarrow> error option"
  rm_fault :: "string \<Rightarrow> error option"
  say :: "string \<Rightarrow> error option"

text \<open>The fields the program reads of a file descriptor and of an inbound event.\<close>

record slack_file =
  file_id :: string
  file_name :: string
  url_private :: string
  filetype :: string
  mimetype :: string

record mention_event =
  files :: "slack_file list option"
  channel :: string

subsection \<open>Strings and paths\<close>

definition startsWith :: "string \<Rightarrow> string \<Rightarrow> bool" where
  "startsWith s p = (take (length p) s = p)"

text \<open>
  \<^verbatim>\<open>path.join\<close> on a directory and a plain file name; the normalisation Node applies to
  \<^verbatim>\<open>.\<close>, \<^verbatim>\<open>..\<close> and repeated separators is not modelled.
\<close>

definition path_join :: "string \<Rightarrow> string \<Rightarrow> string" where
  "path_join dir name = dir @ ''/'' @ name"

definition tempFilePath :: "slack_file \<Rightarrow> string" where
  "tempFilePath file = ''/tmp/'' @ file_id file @ ''.'' @ filetype file"

definition segmentsDir :: "slack_file \<Rightarrow> string" where
  "segmentsDir file = ''/tmp/'' @ file_id file @ ''_segments''"

text \<open>The messages of the program, as the UTF-8 bytes of the source text.\<close>

definition result_label :: string where
  "result_label = map char_of
     [230, 150, 135, 229, 173, 151, 232, 181, 183, 227, 129, 147, 227, 129, 151, 231, 181,
      144, 230, 158, 156 :: nat]"

definition result_text :: "string \<Rightarrow> string \<Rightarrow> string" where
  "result_text name transcriptionText =
     result_label @ '': ('' @ name @ ''):'' @ [CHR 0x0A] @ transcriptionText"

definition msg_started :: string where
  "msg_started = map char_of
     [233, 159, 179, 229, 163, 176, 227, 131, 149, 227, 130, 161, 227, 130, 164, 227, 131,
      171, 227, 130, 146, 229, 143, 151, 227, 129, 145, 229, 143, 150, 227, 130, 138, 227,
      129, 190, 227, 129, 151, 227, 129, 159, 227, 128, 130, 230, 150, 135, 229, 173, 151,
      232, 181, 183, 227, 129, 147, 227, 129, 151, 227, 130, 146, 233, 150, 139, 229, 167,
      139, 227, 129, 151, 227, 129, 190, 227, 129, 153, 227, 128, 130 :: nat]"

definition msg_no_audio :: string where
  "msg_no_audio = map char_of
     [230, 183, 187, 228, 187, 152, 227, 129, 149, 227, 130, 140, 227, 129, 159, 227, 131,
      149, 227, 130, 161, 227, 130, 164, 227, 131, 171, 227, 129, 171, 233, 159, 179, 229,
      163, 176, 227, 131, 149, 227, 130, 161, 227, 130, 164, 227, 131, 171, 227, 129, 140,
      229, 144, 171, 227, 129, 190, 227, 130, 140, 227, 129, 166, 227, 129, 132, 227, 129,
      190, 227, 129, 155, 227, 130, 147, 227, 128, 130 :: nat]"

definition msg_hello :: string where
  "msg_hello = map char_of
     [227, 129, 147, 227, 130, 147, 227, 129, 171, 227, 129, 161, 227, 129, 175, 239, 188,
      129, 233, 159, 179, 229, 163, 176, 227, 131, 149, 227, 130, 161, 227, 130, 164, 227,
      131, 171, 227, 130, 146, 230, 183, 187, 228, 187, 152, 227, 129, 151, 227, 129, 166,
      227, 131, 161, 227, 131, 179, 227, 130, 183, 227, 131, 167, 227, 131, 179, 227, 129,
      151, 227, 129, 166, 227, 129, 132, 227, 129, 159, 227, 129, 160, 227, 129, 145, 227,
      130, 140, 227, 129, 176, 227, 128, 129, 230, 150, 135, 229, 173, 151, 232, 181, 183,
      227, 129, 147, 227, 129, 151, 227, 130, 146, 232, 161, 140, 227, 129, 132, 227, 129,
      190, 227, 129, 153, 227, 128, 130 :: nat]"

definition msg_failed :: string where
  "msg_failed = map char_of
     [231, 148, 179, 227, 129, 151, 232, 168, 179, 227, 129, 130, 227, 130, 138, 227, 129,
      190, 227, 129, 155, 227, 130, 147, 227, 128, 130, 230, 150, 135, 229, 173, 151, 232,
      181, 183, 227, 129, 147, 227, 129, 151, 229, 135, 166, 231, 144, 134, 228, 184, 173,
      227, 129, 171, 227, 130, 168, 227, 131, 169, 227, 131, 188, 227, 129, 140, 231, 153,
      186, 231, 148, 159, 227, 129, 151, 227, 129, 190, 227, 129, 151, 227, 129, 159, 227,
      128, 130 :: nat]"

subsection \<open>The calls to the outside\<close>

definition emit :: "call \<Rightarrow> world \<Rightarrow> world" where
  "emit c w = w\<lparr>trace := trace w @ [c]\<rparr>"

definition put :: "string \<Rightarrow> node option \<Rightarrow> world \<Rightarrow> world" where
  "put p v w = w\<lparr>fs := (fs w)(p := v)\<rparr>"

definition isDir :: "node option \<Rightarrow> bool" where
  "isDir v = (case v of Some (Dir es) \<Rightarrow> True | _ \<Rightarrow> False)"

definition isFile :: "node option \<Rightarrow> bool" where
  "isFile v = (case v of Some (File n) \<Rightarrow> True | _ \<Rightarrow> False)"

text \<open>The calls made after the world \<open>w\<close>, up to the world \<open>w'\<close>.\<close>

definition new_calls :: "world \<Rightarrow> world \<Rightarrow> call list" where
  "new_calls w w' = drop (length (trace w)) (trace w')"

text \<open>
  \<^verbatim>\<open>downloadFile\<close> (lines 41-53): the request is awaited first; then the body is piped into
  a write stream on \<open>outputPath\<close>, which creates or truncates the file and cannot be opened
  on a directory.
\<close>

definition downloadFile :: "env \<Rightarrow> string \<Rightarrow> string \<Rightarrow> world \<Rightarrow> (error + unit) \<times> world" where
  "downloadFile env fileUrl outputPath w =
     (let w0 = emit (Download fileUrl outputPath) w in
      case fetch env fileUrl of
        RequestFailed e \<Rightarrow> (Inl e, w0)
      | StreamFailed n e \<Rightarrow>
          (if isDir (fs w0 outputPath) then (Inl (Error ''EISDIR''), w0)
           else (Inl e, put outputPath (Some (File n)) w0))
      | Fetched n \<Rightarrow>
          (if isDir (fs w0 outputPath) then (Inl (Error ''EISDIR''), w0)
           else (Inr (), put outputPath (Some (File n)) w0)))"

text \<open>
  \<^verbatim>\<open>fsp.stat(p).size\<close>. The size reported for a directory depends on the platform; the
  program only calls it on the file it has just downloaded.
\<close>

definition fsp_stat :: "env \<Rightarrow> string \<Rightarrow> world \<Rightarrow> (error + nat) \<times> world" where
  "fsp_stat env p w =
     (let w0 = emit (Stat p) w in
      case stat_fault env p of
        Some e \<Rightarrow> (Inl e, w0)
      | None \<Rightarrow>
          (case fs w0 p of
             None \<Rightarrow> (Inl (Error ''ENOENT''), w0)
           | Some (File n) \<Rightarrow> (Inr n, w0)
           | Some (Dir es) \<Rightarrow> (Inr 4096, w0)))"

text \<open>\<^verbatim>\<open>fsp.mkdir(p, { recursive: true })\<close>: an existing directory is not an error.\<close>

definition fsp_mkdir :: "env \<Rightarrow> string \<Rightarrow> world \<Rightarrow> (error + unit) \<times> world" where
  "fsp_mkdir env p w =
     (let w0 = emit (Mkdir p) w in
      case mkdir_fault env p of
        Some e \<Rightarrow> (Inl e, w0)
      | None \<Rightarrow>
          (case fs w0 p of
             None \<Rightarrow> (Inr (), put p (Some (Dir [])) w0)
           | Some (Dir es) \<Rightarrow> (Inr (), w0)
           | Some (File n) \<Rightarrow> (Inl (Error ''EEXIST''), w0)))"

definition fsp_readdir :: "env \<Rightarrow> string \<Rightarrow> world \<Rightarrow> (error + string list) \<times> world" where
  "fsp_readdir env p w =
     (let w0 = emit (Readdir p) w in
      case readdir_fault env p of
        Some e \<Rightarrow> (Inl e, w0)
      | None \<Rightarrow>
          (case fs w0 p of
             None \<Rightarrow> (Inl (Error ''ENOENT''), w0)
           | Some (File n) \<Rightarrow> (Inl (Error ''ENOTDIR''), w0)
           | Some (Dir es) \<Rightarrow> (Inr es, w0)))"

text \<open>
  \<^verbatim>\<open>fsp.access(p).then(() => true).catch(() => false)\<close>: whether the path exists. It never
  rejects.
\<close>

definition fsp_access :: "string \<Rightarrow> world \<Rightarrow> bool \<times> world" where
  "fsp_access p w = (fs w p \<noteq> None, emit (Access p) w)"

text \<open>\<^verbatim>\<open>fsp.unlink(p)\<close> removes a file and fails on a directory.\<close>

definition fsp_unlink :: "env \<Rightarrow> string \<Rightarrow> world \<Rightarrow> (error + unit) \<times> world" where
  "fsp_unlink env p w =
     (let w0 = emit (Unlink p) w in
      case unlink_fault env p of
        Some e \<Rightarrow> (Inl e, w0)
      | None \<Rightarrow>
          (case fs w0 p of
             None \<Rightarrow> (Inl (Error ''ENOENT''), w0)
           | Some (File n) \<Rightarrow> (Inr (), put p None w0)
           | Some (Dir es) \<Rightarrow> (Inl (Error ''EISDIR''), w0)))"

text \<open>
  \<^verbatim>\<open>fsp.rm(p, { recursive: true, force: true })\<close> removes a file or a directory with its
  entries; a missing path is not an error.
\<close>

definition fsp_rm :: "env \<Rightarrow> string \<Rightarrow> world \<Rightarrow> (error + unit) \<times> world" where
  "fsp_rm env p w =
     (let w0 = emit (Rm p) w in
      case rm_fault env p of
        Some e \<Rightarrow> (Inl e, w0)
      | None \<Rightarrow> (Inr (), put p None w0))"

text \<open>
  The listing of a directory that held the entries \<open>es\<close>, after the files \<open>written\<close> were
  written into it: a name already there is overwritten, a new one is listed after the old
  ones.
\<close>

definition listing_after :: "string list \<Rightarrow> string list \<Rightarrow> string list" where
  "listing_after es written = es @ remdups (filter (\<lambda>n. n \<notin> set es) written)"

text \<open>
  The files an FFmpeg run writes into the output directory. Without the directory nothing
  is written.
\<close>

definition write_segments :: "string \<Rightarrow> string list \<Rightarrow> world \<Rightarrow> world" where
  "write_segments outputDir names w =
     (case fs w outputDir of
        Some (Dir es) \<Rightarrow> put outputDir (Some (Dir (listing_after es names))) w
      | _ \<Rightarrow> w)"

subsection \<open>The program\<close>

text \<open>The list the \<^verbatim>\<open>end\<close> handler resolves with (line 82).\<close>

definition segment_files :: "string list \<Rightarrow> string list" where
  "segment_files listing = sort (filter (\<lambda>file. startsWith file ''segment_'') listing)"

text \<open>
  \<^verbatim>\<open>splitAudioFile\<close> (lines 56-95): probe the input; run FFmpeg with the output pattern
  \<^verbatim>\<open>segment_%03d.mp3\<close>; on \<^verbatim>\<open>end\<close> list the output directory, on \<^verbatim>\<open>error\<close> reject.
\<close>

definition splitAudioFile ::
  "env \<Rightarrow> string \<Rightarrow> string \<Rightarrow> world \<Rightarrow> (error + string list) \<times> world" where
  "splitAudioFile env inputPath outputDir w =
     (let w0 = emit (Ffprobe inputPath) (emit (SplitAudioFile inputPath outputDir) w) in
      case ffprobe env inputPath of
        Some err \<Rightarrow> (Inl (Error (''FFprobe failed: '' @ message err)), w0)
      | None \<Rightarrow>
          (let w1 = emit (Ffmpeg inputPath (path_join outputDir ''segment_%03d.mp3'')) w0 in
           case ffmpeg env inputPath outputDir of
             FfmpegError written err \<Rightarrow>
               (Inl (Error (''FFmpeg failed: '' @ message err)),
                write_segments outputDir written w1)
           | FfmpegEnd written \<Rightarrow>
               (case fsp_readdir env outputDir (write_segments outputDir written w1) of
                  (Inl err, w2) \<Rightarrow>
                    (Inl (Error (''Failed to read output directory: '' @ message err)), w2)
                | (Inr listing, w2) \<Rightarrow> (Inr (segment_files listing), w2))))"

text \<open>\<^verbatim>\<open>transcribeAudio\<close> (lines 98-104).\<close>

definition transcribeAudio :: "env \<Rightarrow> string \<Rightarrow> world \<Rightarrow> (error + string) \<times> world" where
  "transcribeAudio env filePath w = (transcribe env filePath, emit (Transcribe filePath) w)"

text \<open>The size test of line 117; the division by \<open>2\<^sup>2\<^sup>0\<close> is exact in floating point.\<close>

definition fileSizeInMegabytes :: "nat \<Rightarrow> real" where
  "fileSizeInMegabytes sz = real sz / (1024 * 1024)"

text \<open>The loop of lines 129-133, with \<^verbatim>\<open>transcriptionText\<close> as accumulator.\<close>

fun transcribeSegments ::
  "env \<Rightarrow> string \<Rightarrow> string list \<Rightarrow> string \<Rightarrow> world \<Rightarrow> (error + string) \<times> world" where
  "transcribeSegments env outputDir [] transcriptionText w = (Inr transcriptionText, w)"
| "transcribeSegments env outputDir (segment # segments) transcriptionText w =
     (case transcribeAudio env (path_join outputDir segment) w of
        (Inl e, w1) \<Rightarrow> (Inl e, w1)
      | (Inr text, w1) \<Rightarrow>
          transcribeSegments env outputDir segments (transcriptionText @ text @ '' '') w1)"

text \<open>Lines 138-145: post the result.\<close>

definition postResult ::
  "env \<Rightarrow> slack_file \<Rightarrow> string \<Rightarrow> string \<Rightarrow> world \<Rightarrow> (error + unit) \<times> world" where
  "postResult env file channelId transcriptionText w =
     (let text = result_text (file_name file) transcriptionText;
          w1 = emit (PostMessage channelId text) w in
      case postMessage env channelId text of
        Some e \<Rightarrow> (Inl e, w1)
      | None \<Rightarrow> (Inr (), w1))"

text \<open>
  The two branches of line 121. Each returns, with its result, the value the variable
  \<^verbatim>\<open>outputDir\<close> has when the \<^verbatim>\<open>try\<close> block is left.
\<close>

definition splitBranch ::
  "env \<Rightarrow> slack_file \<Rightarrow> string \<Rightarrow> world \<Rightarrow> (error + unit) \<times> string option \<times> world" where
  "splitBranch env file channelId w =
     (let outputDir = segmentsDir file in
      case fsp_mkdir env outputDir w of
        (Inl e, w1) \<Rightarrow> (Inl e, Some outputDir, w1)
      | (Inr u, w1) \<Rightarrow>
          (case splitAudioFile env (tempFilePath file) outputDir w1 of
             (Inl e, w2) \<Rightarrow> (Inl e, Some outputDir, w2)
           | (Inr segments, w2) \<Rightarrow>
               (case transcribeSegments env outputDir segments [] w2 of
                  (Inl e, w3) \<Rightarrow> (Inl e, Some outputDir, w3)
                | (Inr transcriptionText, w3) \<Rightarrow>
                    (case postResult env file channelId transcriptionText w3 of
                       (r, w4) \<Rightarrow> (r, Some outputDir, w4)))))"

definition directBranch ::
  "env \<Rightarrow> slack_file \<Rightarrow> string \<Rightarrow> world \<Rightarrow> (error + unit) \<times> string option \<times> world" where
  "directBranch env file channelId w =
     (case transcribeAudio env (tempFilePath file) w of
        (Inl e, w1) \<Rightarrow> (Inl e, None, w1)
      | (Inr transcriptionText, w1) \<Rightarrow>
          (case postResult env file channelId transcriptionText w1 of
             (r, w2) \<Rightarrow> (r, None, w2)))"

text \<open>The \<^verbatim>\<open>try\<close> block of \<^verbatim>\<open>processAudioFile\<close> (lines 113-146).\<close>

definition processAudioFile_try ::
  "env \<Rightarrow> slack_file \<Rightarrow> string \<Rightarrow> world \<Rightarrow> (error + unit) \<times> string option \<times> world" where
  "processAudioFile_try env file channelId w =
     (case downloadFile env (url_private file) (tempFilePath file) w of
        (Inl e, w1) \<Rightarrow> (Inl e, None, w1)
      | (Inr u, w1) \<Rightarrow>
          (case fsp_stat env (tempFilePath file) w1 of
             (Inl e, w2) \<Rightarrow> (Inl e, None, w2)
           | (Inr sz, w2) \<Rightarrow>
               (if 25 < fileSizeInMegabytes sz then splitBranch env file channelId w2
                else directBranch env file channelId w2)))"

text \<open>
  Lines 158-160 of \<^verbatim>\<open>cleanupFiles\<close>: an empty path is falsy, and then \<^verbatim>\<open>access\<close> is not
  called.
\<close>

definition cleanup_tempFile :: "env \<Rightarrow> string \<Rightarrow> world \<Rightarrow> (error + unit) \<times> world" where
  "cleanup_tempFile env tempFile w =
     (if tempFile \<noteq> [] then
        (case fsp_access tempFile w of
           (present, w1) \<Rightarrow> if present then fsp_unlink env tempFile w1 else (Inr (), w1))
      else (Inr (), w))"

text \<open>Lines 161-163: \<^verbatim>\<open>null\<close> and the empty path are falsy.\<close>

definition cleanup_outputDir :: "env \<Rightarrow> string option \<Rightarrow> world \<Rightarrow> (error + unit) \<times> world" where
  "cleanup_outputDir env outputDir w =
     (case outputDir of
        None \<Rightarrow> (Inr (), w)
      | Some dir \<Rightarrow>
          (if dir \<noteq> [] then
             (case fsp_access dir w of
                (present, w1) \<Rightarrow> if present then fsp_rm env dir w1 else (Inr (), w1))
           else (Inr (), w)))"

text \<open>
  The \<^verbatim>\<open>try\<close> block of \<^verbatim>\<open>cleanupFiles\<close> (lines 157-163): a failing \<^verbatim>\<open>unlink\<close> leaves
  the block, so the directory is then not looked at.
\<close>

definition cleanupFiles_try ::
  "env \<Rightarrow> string \<Rightarrow> string option \<Rightarrow> world \<Rightarrow> (error + unit) \<times> world" where
  "cleanupFiles_try env tempFile outputDir w =
     (case cleanup_tempFile env tempFile w of
        (Inl e, w1) \<Rightarrow> (Inl e, w1)
      | (Inr u, w1) \<Rightarrow> cleanup_outputDir env outputDir w1)"

text \<open>\<^verbatim>\<open>cleanupFiles\<close> (lines 156-167): it has no error result.\<close>

definition cleanupFiles :: "env \<Rightarrow> string \<Rightarrow> string option \<Rightarrow> world \<Rightarrow> world" where
  "cleanupFiles env tempFile outputDir w =
     (case cleanupFiles_try env tempFile outputDir (emit (CleanupFiles tempFile outputDir) w) of
        (Inl cleanupError, w1) \<Rightarrow> emit (ConsoleError ''Error during cleanup:'' cleanupError) w1
      | (Inr u, w1) \<Rightarrow> w1)"

text \<open>
  \<^verbatim>\<open>processAudioFile\<close> (lines 107-153): the \<^verbatim>\<open>catch\<close> block logs and rethrows, the
  \<^verbatim>\<open>finally\<close> block runs \<^verbatim>\<open>cleanupFiles\<close> on both exits.
\<close>

definition processAudioFile ::
  "env \<Rightarrow> slack_file \<Rightarrow> string \<Rightarrow> world \<Rightarrow> (error + unit) \<times> world" where
  "processAudioFile env file channelId w =
     (case processAudioFile_try env file channelId w of
        (Inl e, outputDir, w1) \<Rightarrow>
          (Inl e, cleanupFiles env (tempFilePath file) outputDir
                    (emit (ConsoleError ''Error processing audio file:'' e) w1))
      | (Inr u, outputDir, w1) \<Rightarrow>
          (Inr u, cleanupFiles env (tempFilePath file) outputDir w1))"

text \<open>The loop of lines 184-186.\<close>

fun processFiles ::
  "env \<Rightarrow> string \<Rightarrow> slack_file list \<Rightarrow> world \<Rightarrow> (error + unit) \<times> world" where
  "processFiles env channelId [] w = (Inr (), w)"
| "processFiles env channelId (file # audioFiles) w =
     (case processAudioFile env file channelId w of
        (Inl e, w1) \<Rightarrow> (Inl e, w1)
      | (Inr u, w1) \<Rightarrow> processFiles env channelId audioFiles w1)"

definition sayMessage :: "env \<Rightarrow> string \<Rightarrow> world \<Rightarrow> (error + unit) \<times> world" where
  "sayMessage env text w =
     (case say env text of
        Some e \<Rightarrow> (Inl e, emit (Say text) w)
      | None \<Rightarrow> (Inr (), emit (Say text) w))"

text \<open>The \<^verbatim>\<open>try\<close> block of the \<^verbatim>\<open>app_mention\<close> handler (lines 177-192).\<close>

definition handler_try :: "env \<Rightarrow> mention_event \<Rightarrow> world \<Rightarrow> (error + unit) \<times> world" where
  "handler_try env event w =
     (case files event of
        None \<Rightarrow> sayMessage env msg_hello w
      | Some fs0 \<Rightarrow>
          (if 0 < length fs0 then
             (let audioFiles = filter (\<lambda>file. startsWith (mimetype file) ''audio/'') fs0 in
              if 0 < length audioFiles then
                (case sayMessage env msg_started w of
                   (Inl e, w1) \<Rightarrow> (Inl e, w1)
                 | (Inr u, w1) \<Rightarrow> processFiles env (channel event) audioFiles w1)
              else sayMessage env msg_no_audio w)
           else sayMessage env msg_hello w))"

text \<open>
  The handler (lines 174-197): the \<^verbatim>\<open>catch\<close> block logs the error and says the failure
  notice; if that call fails too, the handler itself fails.
\<close>

definition handler :: "env \<Rightarrow> mention_event \<Rightarrow> world \<Rightarrow> (error + unit) \<times> world" where
  "handler env event w =
     (case handler_try env event w of
        (Inl e, w1) \<Rightarrow>
          sayMessage env msg_failed
            (emit (ConsoleError ''Error in app_mention event handler:'' e) w1)
      | (Inr u, w1) \<Rightarrow> (Inr u, w1))"


subsection \<open>The names FFmpeg generates\<close>

text \<open>
  The output pattern of line 72 is \<^verbatim>\<open>segment_%03d.mp3\<close>: the segment muxer numbers the
  files from 0 and prints the number as C's \<^verbatim>\<open>printf\<close> does, in decimal, padded with
  zeros to at least three digits.
\<close>

definition digit :: "nat \<Rightarrow> char" where
  "digit d = char_of (48 + d)"

fun dec :: "nat \<Rightarrow> string" where
  "dec n = (if n < 10 then [digit n] else dec (n div 10) @ [digit (n mod 10)])"

declare dec.simps [simp del]

definition pad3 :: "string \<Rightarrow> string" where
  "pad3 s = replicate (3 - length s) CHR ''0'' @ s"

definition segment_name :: "nat \<Rightarrow> string" where
  "segment_name i = ''segment_'' @ pad3 (dec i) @ ''.mp3''"

subsection \<open>Notions used in the proofs\<close>

text \<open>The entries of a directory; none where there is no directory.\<close>

definition entries_of :: "node option \<Rightarrow> string list" where
  "entries_of v = (case v of Some (Dir es) \<Rightarrow> es | _ \<Rightarrow> [])"

text \<open>The text the service returns for a path, where it returns one.\<close>

definition heard_text :: "env \<Rightarrow> string \<Rightarrow> string" where
  "heard_text env p = (case transcribe env p of Inr t \<Rightarrow> t | Inl e \<Rightarrow> [])"

text \<open>The kinds of call made by the \<^verbatim>\<open>try\<close> block of \<open>processAudioFile\<close>.\<close>

definition pipeline_call :: "call \<Rightarrow> bool" where
  "pipeline_call c = (is_Download c \<or> is_Stat c \<or> is_Mkdir c \<or> is_SplitAudioFile c \<or>
     is_Ffprobe c \<or> is_Ffmpeg c \<or> is_Readdir c \<or> is_Transcribe c \<or> is_PostMessage c)"

text \<open>
  The run fails with the error \<open>e\<close>, and the calls of its \<^verbatim>\<open>try\<close> block are exactly
  \<open>calls\<close>, in this order.
\<close>

definition fails_with ::
  "env \<Rightarrow> slack_file \<Rightarrow> string \<Rightarrow> world \<Rightarrow> error \<Rightarrow> call list \<Rightarrow> bool" where
  "fails_with env f ch w e calls =
     (fst (processAudioFile env f ch w) = Inl e \<and>
      filter pipeline_call (new_calls w (snd (processAudioFile env f ch w))) = calls)"

text \<open>The kinds of call made in the split branch once the directory is made.\<close>

definition split_call :: "call \<Rightarrow> bool" where
  "split_call c = (is_SplitAudioFile c \<or> is_Ffprobe c \<or> is_Ffmpeg c \<or> is_Readdir c \<or>
     is_Transcribe c \<or> is_PostMessage c)"

text \<open>The kinds of call made inside \<open>cleanupFiles\<close>.\<close>

definition cleanup_call :: "call \<Rightarrow> bool" where
  "cleanup_call c = (is_Access c \<or> is_Unlink c \<or> is_Rm c \<or> is_ConsoleError c)"

text \<open>The kinds of call made by \<open>processAudioFile\<close>.\<close>

definition run_call :: "call \<Rightarrow> bool" where
  "run_call c = (pipeline_call c \<or> is_CleanupFiles c \<or> cleanup_call c)"

text \<open>From \<open>w\<close> to \<open>w'\<close> the trace grew, by calls that satisfy \<open>P\<close>.\<close>

definition appends :: "(call \<Rightarrow> bool) \<Rightarrow> world \<Rightarrow> world \<Rightarrow> bool" where
  "appends P w w' = (\<exists>evs. trace w' = trace w @ evs \<and> list_all P evs)"

subsection \<open>Example inputs\<close>

definition file1 :: slack_file where
  "file1 = \<lparr>file_id = ''F1'', file_name = ''talk.mp3'', url_private = ''https://files/F1'',
            filetype = ''mp3'', mimetype = ''audio/mpeg''\<rparr>"

definition always :: "'b \<Rightarrow> 'a \<Rightarrow> 'b" where
  "always v x = v"

definition world0 :: world where
  "world0 = \<lparr>fs = always None, trace = []\<rparr>"

text \<open>
  An environment in which nothing fails: the download has \<open>n\<close> bytes, FFmpeg writes the
  files \<open>written\<close>, and the service transcribes the path \<open>p\<close> to \<open>heard p\<close>.
\<close>

definition env_ok :: "nat \<Rightarrow> string list \<Rightarrow> (string \<Rightarrow> error + string) \<Rightarrow> env" where
  "env_ok n written heard =
     \<lparr>fetch = always (Fetched n), stat_fault = always None, mkdir_fault = always None,
      ffprobe = always None, ffmpeg = always (always (FfmpegEnd written)),
      readdir_fault = always None, transcribe = heard,
      postMessage = always (always None), unlink_fault = always None, rm_fault = always None,
      say = always None\<rparr>"

text \<open>
  A transcription service that returns the text the table gives for a path and fails with
  the error \<open>e\<close> on every other path.
\<close>

definition heard_table :: "(string \<times> string) list \<Rightarrow> error \<Rightarrow> string \<Rightarrow> error + string" where
  "heard_table table e p = (case map_of table p of Some t \<Rightarrow> Inr t | None \<Rightarrow> Inl e)"

section \<open>Auxiliary facts\<close>

lemma fs_emit [simp]: "fs (emit c w) = fs w"
  by (simp add: emit_def)

lemma trace_emit [simp]: "trace (emit c w) = trace w @ [c]"
  by (simp add: emit_def)

lemma fs_put [simp]: "fs (put p v w) = (fs w)(p := v)"
  by (simp add: put_def)

lemma trace_put [simp]: "trace (put p v w) = trace w"
  by (simp add: put_def)

lemma new_calls_app: "trace w' = trace w @ evs \<Longrightarrow> new_calls w w' = evs"
  by (simp add: new_calls_def)

lemma tmp_neq_dir [simp]: "tempFilePath file \<noteq> segmentsDir file" "segmentsDir file \<noteq> tempFilePath file"
  by (auto simp add: tempFilePath_def segmentsDir_def)

lemma tmp_nonempty [simp]: "tempFilePath file \<noteq> []" "segmentsDir file \<noteq> []"
  by (simp_all add: tempFilePath_def segmentsDir_def)

lemma appends_refl [simp]: "appends P w w"
  by (simp add: appends_def)

lemma appends_trans: "appends P w w1 \<Longrightarrow> appends P w1 w2 \<Longrightarrow> appends P w w2"
  by (auto simp add: appends_def)

lemma appends_emit: "appends P w w1 \<Longrightarrow> P c \<Longrightarrow> appends P w (emit c w1)"
  by (auto simp add: appends_def)

lemma appends_put [simp]: "appends P w (put p v w1) = appends P w w1"
  by (simp add: appends_def)

lemma appends_emit1: "P c \<Longrightarrow> appends P w (emit c w)"
  by (simp add: appends_emit)

subsection \<open>The calls each function makes\<close>

lemma pipeline_call_simps [simp]:
  "pipeline_call (Download u p)" "pipeline_call (Stat p)" "pipeline_call (Mkdir p)"
  "pipeline_call (SplitAudioFile i d)" "pipeline_call (Ffprobe p)" "pipeline_call (Ffmpeg i d)"
  "pipeline_call (Readdir p)" "pipeline_call (Transcribe p)" "pipeline_call (PostMessage c t)"
  "\<not> pipeline_call (CleanupFiles p od)" "\<not> pipeline_call (Access p)" "\<not> pipeline_call (Unlink p)"
  "\<not> pipeline_call (Rm p)" "\<not> pipeline_call (Say t)" "\<not> pipeline_call (ConsoleError l e)"
  by (simp_all add: pipeline_call_def)

lemma cleanup_call_simps [simp]:
  "cleanup_call (Access p)" "cleanup_call (Unlink p)" "cleanup_call (Rm p)"
  "cleanup_call (ConsoleError l e)"
  by (simp_all add: cleanup_call_def)

lemma appends_write_segments: "appends P w0 w \<Longrightarrow> appends P w0 (write_segments d ns w)"
  by (simp add: write_segments_def split: option.split node.split)

lemma downloadFile_appends:
  "downloadFile env u p w = (r, w') \<Longrightarrow> appends pipeline_call w0 w \<Longrightarrow>
     appends pipeline_call w0 w'"
  by (auto simp add: downloadFile_def Let_def appends_emit split: fetch_outcome.splits if_splits)

lemma fsp_stat_appends:
  "fsp_stat env p w = (r, w') \<Longrightarrow> appends pipeline_call w0 w \<Longrightarrow>
     appends pipeline_call w0 w'"
  by (auto simp add: fsp_stat_def Let_def appends_emit split: option.splits node.splits)

lemma fsp_mkdir_appends:
  "fsp_mkdir env p w = (r, w') \<Longrightarrow> appends pipeline_call w0 w \<Longrightarrow>
     appends pipeline_call w0 w'"
  by (auto simp add: fsp_mkdir_def Let_def appends_emit split: option.splits node.splits)

lemma fsp_readdir_appends:
  "fsp_readdir env p w = (r, w') \<Longrightarrow> appends pipeline_call w0 w \<Longrightarrow>
     appends pipeline_call w0 w'"
  by (auto simp add: fsp_readdir_def Let_def appends_emit split: option.splits node.splits)

lemma transcribeAudio_appends:
  "transcribeAudio env p w = (r, w') \<Longrightarrow> appends pipeline_call w0 w \<Longrightarrow>
     appends pipeline_call w0 w'"
  by (auto simp add: transcribeAudio_def appends_emit)

lemma postResult_appends:
  "postResult env f c t w = (r, w') \<Longrightarrow> appends pipeline_call w0 w \<Longrightarrow>
     appends pipeline_call w0 w'"
  by (auto simp add: postResult_def Let_def appends_emit split: option.splits)

lemma splitAudioFile_appends:
  assumes "splitAudioFile env i d w = (r, w')" and "appends pipeline_call w0 w"
  shows "appends pipeline_call w0 w'"
proof -
  let ?w1 = "emit (Ffprobe i) (emit (SplitAudioFile i d) w)"
  let ?w2 = "emit (Ffmpeg i (path_join d ''segment_%03d.mp3'')) ?w1"
  have a1: "appends pipeline_call w0 ?w1"
    using assms(2) by (simp add: appends_emit)
  then have a2: "appends pipeline_call w0 ?w2"
    by (simp add: appends_emit)
  show ?thesis
    using assms(1) a1 a2
    by (auto simp add: splitAudioFile_def Let_def
        split: option.splits ffmpeg_outcome.splits prod.splits sum.splits
        dest: fsp_readdir_appends intro: appends_write_segments)
qed

lemma transcribeSegments_appends:
  "transcribeSegments env d segs acc w = (r, w') \<Longrightarrow> appends pipeline_call w0 w \<Longrightarrow>
     appends pipeline_call w0 w'"
proof (induction segs arbitrary: acc w)
  case Nil
  then show ?case by simp
next
  case (Cons s segs)
  from Cons.prems(2) have "appends pipeline_call w0 (emit (Transcribe (path_join d s)) w)"
    by (simp add: appends_emit)
  with Cons.prems(1) Cons.IH show ?case
    by (auto simp add: transcribeAudio_def split: sum.splits)
qed

lemma directBranch_appends:
  "directBranch env f c w = (r, od, w') \<Longrightarrow> appends pipeline_call w0 w \<Longrightarrow>
     appends pipeline_call w0 w'"
  by (auto simp add: directBranch_def split: sum.splits prod.splits
      dest: transcribeAudio_appends postResult_appends)

lemma splitBranch_appends:
  "splitBranch env f c w = (r, od, w') \<Longrightarrow> appends pipeline_call w0 w \<Longrightarrow>
     appends pipeline_call w0 w'"
  by (auto simp add: splitBranch_def Let_def split: sum.splits prod.splits
      dest: fsp_mkdir_appends postResult_appends splitAudioFile_appends
        transcribeSegments_appends)

lemma try_appends:
  "processAudioFile_try env f c w = (r, od, w') \<Longrightarrow> appends pipeline_call w0 w \<Longrightarrow>
     appends pipeline_call w0 w'"
  by (auto simp add: processAudioFile_try_def split: sum.splits prod.splits if_splits
      dest: downloadFile_appends fsp_stat_appends splitBranch_appends directBranch_appends)


lemma cleanup_tempFile_appends:
  "cleanup_tempFile env t w = (r, w') \<Longrightarrow> appends cleanup_call w0 w \<Longrightarrow>
     appends cleanup_call w0 w'"
  by (auto simp add: cleanup_tempFile_def fsp_access_def fsp_unlink_def Let_def appends_emit
      split: if_splits option.splits node.splits)

lemma cleanup_outputDir_appends:
  "cleanup_outputDir env od w = (r, w') \<Longrightarrow> appends cleanup_call w0 w \<Longrightarrow>
     appends cleanup_call w0 w'"
  by (auto simp add: cleanup_outputDir_def fsp_access_def fsp_rm_def Let_def appends_emit
      split: if_splits option.splits node.splits)

lemma cleanupFiles_try_appends:
  "cleanupFiles_try env t od w = (r, w') \<Longrightarrow> appends cleanup_call w0 w \<Longrightarrow>
     appends cleanup_call w0 w'"
  by (auto simp add: cleanupFiles_try_def split: sum.splits prod.splits
      dest: cleanup_tempFile_appends cleanup_outputDir_appends)

lemma cleanupFiles_trace:
  "\<exists>evs. trace (cleanupFiles env t od w) = trace w @ CleanupFiles t od # evs \<and>
     list_all cleanup_call evs"
proof -
  obtain r w1 where c: "cleanupFiles_try env t od (emit (CleanupFiles t od) w) = (r, w1)"
    by (cases "cleanupFiles_try env t od (emit (CleanupFiles t od) w)") simp
  have "appends cleanup_call (emit (CleanupFiles t od) w) w1"
    using cleanupFiles_try_appends [OF c] by simp
  then obtain evs where evs: "trace w1 = trace w @ CleanupFiles t od # evs" "list_all cleanup_call evs"
    by (auto simp add: appends_def)
  show ?thesis
  proof (cases r)
    case (Inl e)
    with c evs have "trace (cleanupFiles env t od w) =
        trace w @ CleanupFiles t od # (evs @ [ConsoleError ''Error during cleanup:'' e])"
      by (simp add: cleanupFiles_def)
    moreover have "list_all cleanup_call (evs @ [ConsoleError ''Error during cleanup:'' e])"
      using evs(2) by simp
    ultimately show ?thesis by blast
  next
    case (Inr u)
    with c evs show ?thesis by (simp add: cleanupFiles_def)
  qed
qed

lemma filter_none: "list_all P evs \<Longrightarrow> (\<And>c. P c \<Longrightarrow> \<not> Q c) \<Longrightarrow> filter Q evs = []"
  by (induction evs) auto

text \<open>The whole run: calls of the try block, the log line of the catch block, the cleanup.\<close>

lemma run_trace:
  assumes "processAudioFile_try env f c w = (r, od, w1)"
  shows "\<exists>evs cs. trace w1 = trace w @ evs \<and> list_all pipeline_call evs \<and> list_all cleanup_call cs \<and>
     fst (processAudioFile env f c w) = r \<and>
     new_calls w (snd (processAudioFile env f c w)) =
       evs @ (case r of Inl e \<Rightarrow> [ConsoleError ''Error processing audio file:'' e] | Inr u \<Rightarrow> [])
           @ CleanupFiles (tempFilePath f) od # cs"
proof -
  from try_appends [OF assms appends_refl]
  obtain evs where evs: "trace w1 = trace w @ evs" "list_all pipeline_call evs"
    by (auto simp add: appends_def)
  show ?thesis
  proof (cases r)
    case (Inl e)
    let ?w2 = "emit (ConsoleError ''Error processing audio file:'' e) w1"
    from cleanupFiles_trace [of env "tempFilePath f" od ?w2]
    obtain cs where cs: "trace (cleanupFiles env (tempFilePath f) od ?w2) =
        trace ?w2 @ CleanupFiles (tempFilePath f) od # cs" "list_all cleanup_call cs"
      by blast
    have "new_calls w (snd (processAudioFile env f c w)) =
       evs @ [ConsoleError ''Error processing audio file:'' e] @ CleanupFiles (tempFilePath f) od # cs"
      using assms Inl cs(1) evs(1) by (simp add: processAudioFile_def new_calls_def)
    with Inl assms evs cs(2) show ?thesis
      by (auto simp add: processAudioFile_def)
  next
    case (Inr u)
    from cleanupFiles_trace [of env "tempFilePath f" od w1]
    obtain cs where cs: "trace (cleanupFiles env (tempFilePath f) od w1) =
        trace w1 @ CleanupFiles (tempFilePath f) od # cs" "list_all cleanup_call cs"
      by blast
    have "new_calls w (snd (processAudioFile env f c w)) = evs @ CleanupFiles (tempFilePath f) od # cs"
      using assms Inr cs(1) evs(1) by (simp add: processAudioFile_def new_calls_def)
    with Inr assms evs cs(2) show ?thesis
      by (auto simp add: processAudioFile_def)
  qed
qed



subsection \<open>The effect of each function on the file system\<close>

lemma isDir_simps [simp]: "\<not> isDir None" "\<not> isDir (Some (File n))" "isDir (Some (Dir es))"
  by (simp_all add: isDir_def)

lemma downloadFile_frame:
  "downloadFile env u p w = (r, w') \<Longrightarrow> q \<noteq> p \<Longrightarrow> fs w' q = fs w q"
  by (auto simp add: downloadFile_def Let_def split: fetch_outcome.splits if_splits)

lemma downloadFile_notdir:
  "downloadFile env u p w = (r, w') \<Longrightarrow> \<not> isDir (fs w p) \<Longrightarrow> \<not> isDir (fs w' p)"
  by (auto simp add: downloadFile_def Let_def split: fetch_outcome.splits if_splits)

lemma fsp_stat_fs: "fsp_stat env p w = (r, w') \<Longrightarrow> fs w' = fs w"
  by (auto simp add: fsp_stat_def Let_def split: option.splits node.splits)

lemma fsp_mkdir_frame: "fsp_mkdir env p w = (r, w') \<Longrightarrow> q \<noteq> p \<Longrightarrow> fs w' q = fs w q"
  by (auto simp add: fsp_mkdir_def Let_def split: option.splits node.splits)

lemma fsp_readdir_fs: "fsp_readdir env p w = (r, w') \<Longrightarrow> fs w' = fs w"
  by (auto simp add: fsp_readdir_def Let_def split: option.splits node.splits)

lemma write_segments_frame: "q \<noteq> d \<Longrightarrow> fs (write_segments d ns w) q = fs w q"
  by (simp add: write_segments_def split: option.split node.split)

lemma splitAudioFile_frame:
  "splitAudioFile env i d w = (r, w') \<Longrightarrow> q \<noteq> d \<Longrightarrow> fs w' q = fs w q"
  by (auto simp add: splitAudioFile_def Let_def write_segments_frame
      split: option.splits ffmpeg_outcome.splits prod.splits sum.splits
      dest!: fsp_readdir_fs)

lemma transcribeSegments_fs:
  "transcribeSegments env d segs acc w = (r, w') \<Longrightarrow> fs w' = fs w"
  by (induction segs arbitrary: acc w) (auto simp add: transcribeAudio_def split: sum.splits)

lemma postResult_fs: "postResult env f c t w = (r, w') \<Longrightarrow> fs w' = fs w"
  by (auto simp add: postResult_def Let_def split: option.splits)

lemma directBranch_fs: "directBranch env f c w = (r, od, w') \<Longrightarrow> fs w' = fs w \<and> od = None"
  by (auto simp add: directBranch_def transcribeAudio_def split: sum.splits prod.splits
      dest!: postResult_fs)

lemma splitBranch_frame:
  "splitBranch env f c w = (r, od, w') \<Longrightarrow>
     od = Some (segmentsDir f) \<and> (\<forall>q. q \<noteq> segmentsDir f \<longrightarrow> fs w' q = fs w q)"
  by (auto simp add: splitBranch_def Let_def split: sum.splits prod.splits
      dest!: postResult_fs transcribeSegments_fs simp: fsp_mkdir_frame;
      metis fsp_mkdir_frame splitAudioFile_frame)

lemma try_effect:
  assumes "processAudioFile_try env f c w = (r, od, w')"
  shows "(\<not> isDir (fs w (tempFilePath f)) \<longrightarrow> \<not> isDir (fs w' (tempFilePath f))) \<and>
         (od = None \<and> fs w' (segmentsDir f) = fs w (segmentsDir f) \<or> od = Some (segmentsDir f))"
proof -
  obtain r1 w1 where d: "downloadFile env (url_private f) (tempFilePath f) w = (r1, w1)"
    by (cases "downloadFile env (url_private f) (tempFilePath f) w") simp
  obtain r2 w2 where s: "fsp_stat env (tempFilePath f) w1 = (r2, w2)"
    by (cases "fsp_stat env (tempFilePath f) w1") simp
  have t1: "\<not> isDir (fs w (tempFilePath f)) \<longrightarrow> \<not> isDir (fs w2 (tempFilePath f))"
    using downloadFile_notdir [OF d] fsp_stat_fs [OF s] by simp
  have d1: "fs w2 (segmentsDir f) = fs w (segmentsDir f)"
    using downloadFile_frame [OF d, of "segmentsDir f"] fsp_stat_fs [OF s] by simp
  have t0: "\<not> isDir (fs w (tempFilePath f)) \<longrightarrow> \<not> isDir (fs w1 (tempFilePath f))"
    using downloadFile_notdir [OF d] by simp
  have d0: "fs w1 (segmentsDir f) = fs w (segmentsDir f)"
    using downloadFile_frame [OF d, of "segmentsDir f"] by simp
  show ?thesis
    using assms d s t0 d0 t1 d1
    by (auto simp add: processAudioFile_try_def split: sum.splits if_splits
        dest!: directBranch_fs splitBranch_frame)
qed

lemma cleanup_tempFile_ok:
  assumes "unlink_fault env t = None" "\<not> isDir (fs w t)"
  shows "\<exists>w'. cleanup_tempFile env t w = (Inr (), w') \<and> fs w' = (if t = [] then fs w else (fs w)(t := None))"
  using assms
  by (auto simp add: cleanup_tempFile_def fsp_access_def fsp_unlink_def Let_def
      split: option.splits node.splits)

lemma cleanup_outputDir_ok:
  assumes "rm_fault env d = None"
  shows "\<exists>w'. cleanup_outputDir env (Some d) w = (Inr (), w') \<and> fs w' = (if d = [] then fs w else (fs w)(d := None))"
  using assms
  by (auto simp add: cleanup_outputDir_def fsp_access_def fsp_rm_def Let_def
      split: option.splits node.splits)

lemma cleanupFiles_fs_None:
  assumes "unlink_fault env t = None" "\<not> isDir (fs w t)" "t \<noteq> []"
  shows "fs (cleanupFiles env t None w) = (fs w)(t := None)"
proof -
  from cleanup_tempFile_ok [OF assms(1), of "emit (CleanupFiles t None) w"] assms(2,3)
  obtain w' where "cleanup_tempFile env t (emit (CleanupFiles t None) w) = (Inr (), w')"
     "fs w' = (fs w)(t := None)"
    by auto
  then show ?thesis
    by (simp add: cleanupFiles_def cleanupFiles_try_def cleanup_outputDir_def)
qed

lemma cleanupFiles_fs_Some:
  assumes "unlink_fault env t = None" "\<not> isDir (fs w t)" "t \<noteq> []" "rm_fault env d = None" "d \<noteq> []"
  shows "fs (cleanupFiles env t (Some d) w) = (fs w)(t := None, d := None)"
proof -
  from cleanup_tempFile_ok [OF assms(1), of "emit (CleanupFiles t (Some d)) w"] assms(2,3)
  obtain w' where 1: "cleanup_tempFile env t (emit (CleanupFiles t (Some d)) w) = (Inr (), w')"
     "fs w' = (fs w)(t := None)"
    by auto
  from cleanup_outputDir_ok [OF assms(4), of w'] assms(5)
  obtain w'' where 2: "cleanup_outputDir env (Some d) w' = (Inr (), w'')" "fs w'' = (fs w')(d := None)"
    by auto
  from 1 2 show ?thesis
    by (simp add: cleanupFiles_def cleanupFiles_try_def)
qed

lemma removed_after_run:
  assumes "unlink_fault env (tempFilePath f) = None"
    and "\<not> isDir (fs w (tempFilePath f))"
  shows "fs (snd (processAudioFile env f c w)) (tempFilePath f) = None"
    and "rm_fault env (segmentsDir f) = None \<Longrightarrow> fs w (segmentsDir f) = None \<Longrightarrow>
         fs (snd (processAudioFile env f c w)) (segmentsDir f) = None"
proof -
  obtain r od w1 where t: "processAudioFile_try env f c w = (r, od, w1)"
    by (cases "processAudioFile_try env f c w") auto
  from try_effect [OF t] assms(2)
  have nd: "\<not> isDir (fs w1 (tempFilePath f))"
    and od: "od = None \<and> fs w1 (segmentsDir f) = fs w (segmentsDir f) \<or> od = Some (segmentsDir f)"
    by auto
  define w2 where "w2 = (case r of Inl e \<Rightarrow> emit (ConsoleError ''Error processing audio file:'' e) w1 | Inr u \<Rightarrow> w1)"
  have w2: "fs w2 = fs w1" "snd (processAudioFile env f c w) = cleanupFiles env (tempFilePath f) od w2"
    using t by (auto simp add: w2_def processAudioFile_def split: sum.splits)
  from od show "fs (snd (processAudioFile env f c w)) (tempFilePath f) = None"
  proof
    assume "od = None \<and> fs w1 (segmentsDir f) = fs w (segmentsDir f)"
    then show ?thesis
      using cleanupFiles_fs_None [OF assms(1), of w2] nd w2 by simp
  next
    assume o: "od = Some (segmentsDir f)"
    show ?thesis
    proof (cases "rm_fault env (segmentsDir f)")
      case None
      then show ?thesis
        using cleanupFiles_fs_Some [OF assms(1), of w2 "segmentsDir f"] nd w2 o by simp
    next
      case (Some e)
      from cleanup_tempFile_ok [OF assms(1), of "emit (CleanupFiles (tempFilePath f) od) w2"] nd w2
      obtain w3 where 1: "cleanup_tempFile env (tempFilePath f) (emit (CleanupFiles (tempFilePath f) od) w2) = (Inr (), w3)"
        "fs w3 = (fs w1)((tempFilePath f) := None)"
        by auto
      then show ?thesis
        using w2 o Some
        by (auto simp add: cleanupFiles_def cleanupFiles_try_def cleanup_outputDir_def fsp_access_def
            fsp_rm_def Let_def split: sum.splits prod.splits)
    qed
  qed
  assume rm: "rm_fault env (segmentsDir f) = None" and fresh: "fs w (segmentsDir f) = None"
  from od show "fs (snd (processAudioFile env f c w)) (segmentsDir f) = None"
  proof
    assume "od = None \<and> fs w1 (segmentsDir f) = fs w (segmentsDir f)"
    then show ?thesis
      using cleanupFiles_fs_None [OF assms(1), of w2] nd w2 fresh by simp
  next
    assume o: "od = Some (segmentsDir f)"
    then show ?thesis
      using cleanupFiles_fs_Some [OF assms(1) _ _ rm, of w2] nd w2 by simp
  qed
qed


subsection \<open>Evaluation, and the stages that succeed\<close>

lemmas run_defs = processAudioFile_def processAudioFile_try_def splitBranch_def directBranch_def
  splitAudioFile_def cleanupFiles_def cleanupFiles_try_def cleanup_tempFile_def
  cleanup_outputDir_def downloadFile_def fsp_stat_def fsp_mkdir_def fsp_readdir_def
  fsp_access_def fsp_unlink_def fsp_rm_def write_segments_def transcribeAudio_def
  postResult_def segment_files_def startsWith_def path_join_def tempFilePath_def
  segmentsDir_def fileSizeInMegabytes_def new_calls_def listing_after_def Let_def

lemmas example_defs = env_ok_def file1_def world0_def always_def heard_table_def

lemma size_test: "(25 < fileSizeInMegabytes n) = (26214400 < n)"
  by (simp add: fileSizeInMegabytes_def field_simps)

lemma downloadFile_ok:
  "fetch env u = Fetched n \<Longrightarrow> \<not> isDir (fs w p) \<Longrightarrow>
     downloadFile env u p w = (Inr (), put p (Some (File n)) (emit (Download u p) w))"
  by (simp add: downloadFile_def)

lemma fsp_stat_ok:
  "stat_fault env p = None \<Longrightarrow> fs w p = Some (File n) \<Longrightarrow>
     fsp_stat env p w = (Inr n, emit (Stat p) w)"
  by (simp add: fsp_stat_def)

lemma try_measured:
  assumes "fetch env (url_private file) = Fetched n"
    and "\<not> isDir (fs w (tempFilePath file))"
    and "stat_fault env (tempFilePath file) = None"
  shows "processAudioFile_try env file ch w =
     (if 26214400 < n
      then splitBranch env file ch
        (emit (Stat (tempFilePath file))
          (put (tempFilePath file) (Some (File n))
            (emit (Download (url_private file) (tempFilePath file)) w)))
      else directBranch env file ch
        (emit (Stat (tempFilePath file))
          (put (tempFilePath file) (Some (File n))
            (emit (Download (url_private file) (tempFilePath file)) w))))"
  using assms
  by (simp add: processAudioFile_try_def downloadFile_ok fsp_stat_ok size_test)


lemma run_filter:
  assumes "processAudioFile_try env f c w = (r, od, w1)"
    and "\<And>x. Q x \<Longrightarrow> pipeline_call x"
  shows "filter Q (new_calls w (snd (processAudioFile env f c w))) = filter Q (new_calls w w1)"
proof -
  from run_trace [OF assms(1)] obtain evs cs where
    *: "trace w1 = trace w @ evs" "list_all cleanup_call cs"
       "new_calls w (snd (processAudioFile env f c w)) =
       evs @ (case r of Inl e \<Rightarrow> [ConsoleError ''Error processing audio file:'' e] | Inr u \<Rightarrow> [])
           @ CleanupFiles (tempFilePath f) od # cs"
    by blast
  have "\<not> Q x" if "cleanup_call x" for x
    using that assms(2) [of x] by (cases x) (auto simp add: cleanup_call_def)
  with *(2) have "filter Q cs = []"
    by (rule filter_none)
  moreover have "\<not> Q (CleanupFiles (tempFilePath f) od)"
    using assms(2) [of "CleanupFiles (tempFilePath f) od"] by auto
  moreover have "\<not> Q (ConsoleError l e)" for l e
    using assms(2) [of "ConsoleError l e"] by auto
  ultimately show ?thesis
    using *(1,3) by (simp add: new_calls_app split: sum.split)
qed

lemma isFile_simps [simp]: "\<not> isFile None" "isFile (Some (File n))" "\<not> isFile (Some (Dir es))"
  by (simp_all add: isFile_def)

lemma entries_of_simps [simp]: "entries_of None = []" "entries_of (Some (Dir es)) = es"
  by (simp_all add: entries_of_def)

lemma fsp_mkdir_ok:
  assumes "mkdir_fault env p = None" "\<not> isFile (fs w p)"
  shows "\<exists>w'. fsp_mkdir env p w = (Inr (), w') \<and> trace w' = trace w @ [Mkdir p] \<and>
     fs w' = (fs w)(p := Some (Dir (entries_of (fs w p))))"
  using assms
  by (auto simp add: fsp_mkdir_def Let_def split: option.splits node.splits)

lemma splitAudioFile_ok:
  assumes "ffprobe env i = None" "ffmpeg env i d = FfmpegEnd written"
    "readdir_fault env d = None" "fs w d = Some (Dir es)"
  shows "\<exists>w'. splitAudioFile env i d w = (Inr (segment_files (listing_after es written)), w') \<and>
     trace w' = trace w @ [SplitAudioFile i d, Ffprobe i,
        Ffmpeg i (path_join d ''segment_%03d.mp3''), Readdir d] \<and>
     fs w' = (fs w)(d := Some (Dir (listing_after es written)))"
  using assms
  by (simp add: splitAudioFile_def Let_def write_segments_def fsp_readdir_def listing_after_def)

text \<open>The loop, when every segment is transcribed, and when one is not.\<close>

lemma transcribeSegments_ok:
  assumes "\<forall>s\<in>set segs. \<not> isl (transcribe env (path_join d s))"
  shows "\<exists>w'. transcribeSegments env d segs acc w =
       (Inr (acc @ concat (map (\<lambda>s. heard_text env (path_join d s) @ '' '') segs)), w') \<and>
     trace w' = trace w @ map (\<lambda>s. Transcribe (path_join d s)) segs"
  using assms
proof (induction segs arbitrary: acc w)
  case Nil
  then show ?case by simp
next
  case (Cons s segs)
  from Cons.prems obtain t where t: "transcribe env (path_join d s) = Inr t"
    by (cases "transcribe env (path_join d s)") auto
  from Cons.prems have "\<forall>s\<in>set segs. \<not> isl (transcribe env (path_join d s))"
    by simp
  from Cons.IH [OF this, of "acc @ t @ '' ''" "emit (Transcribe (path_join d s)) w"]
  show ?case
    using t by (auto simp add: transcribeAudio_def heard_text_def)
qed

lemma transcribeSegments_fail:
  assumes "\<forall>x\<in>set pre. \<not> isl (transcribe env (path_join d x))"
    and "transcribe env (path_join d s) = Inl e"
  shows "\<exists>w'. transcribeSegments env d (pre @ s # post) acc w = (Inl e, w') \<and>
     trace w' = trace w @ map (\<lambda>x. Transcribe (path_join d x)) (pre @ [s])"
  using assms(1)
proof (induction pre arbitrary: acc w)
  case Nil
  then show ?case
    using assms(2) by (simp add: transcribeAudio_def)
next
  case (Cons x pre)
  from Cons.prems obtain t where t: "transcribe env (path_join d x) = Inr t"
    by (cases "transcribe env (path_join d x)") auto
  from Cons.prems have "\<forall>x\<in>set pre. \<not> isl (transcribe env (path_join d x))"
    by simp
  from Cons.IH [OF this, of "acc @ t @ '' ''" "emit (Transcribe (path_join d x)) w"]
  show ?case
    using t by (auto simp add: transcribeAudio_def)
qed

text \<open>The run up to the loop, when it measures more than 25 MB and the split succeeds.\<close>

lemma try_split:
  assumes "fetch env (url_private file) = Fetched n"
    and "\<not> isDir (fs w (tempFilePath file))"
    and "stat_fault env (tempFilePath file) = None"
    and "26214400 < n"
    and "mkdir_fault env (segmentsDir file) = None"
    and "\<not> isFile (fs w (segmentsDir file))"
    and "ffprobe env (tempFilePath file) = None"
    and "ffmpeg env (tempFilePath file) (segmentsDir file) = FfmpegEnd written"
    and "readdir_fault env (segmentsDir file) = None"
  shows "\<exists>w4. trace w4 = trace w @
        [Download (url_private file) (tempFilePath file), Stat (tempFilePath file),
         Mkdir (segmentsDir file), SplitAudioFile (tempFilePath file) (segmentsDir file),
         Ffprobe (tempFilePath file),
         Ffmpeg (tempFilePath file) (path_join (segmentsDir file) ''segment_%03d.mp3''),
         Readdir (segmentsDir file)] \<and>
      processAudioFile_try env file ch w =
        (case transcribeSegments env (segmentsDir file)
                (segment_files (listing_after (entries_of (fs w (segmentsDir file))) written)) [] w4 of
           (Inl e, w5) \<Rightarrow> (Inl e, Some (segmentsDir file), w5)
         | (Inr transcriptionText, w5) \<Rightarrow>
             (case postResult env file ch transcriptionText w5 of
                (r, w6) \<Rightarrow> (r, Some (segmentsDir file), w6)))"
proof -
  let ?wm = "emit (Stat (tempFilePath file))
          (put (tempFilePath file) (Some (File n))
            (emit (Download (url_private file) (tempFilePath file)) w))"
  have tr: "processAudioFile_try env file ch w = splitBranch env file ch ?wm"
    using try_measured [OF assms(1-3)] assms(4) by simp
  have "\<not> isFile (fs ?wm (segmentsDir file))"
    using assms(6) by simp
  from fsp_mkdir_ok [OF assms(5) this]
  obtain w3 where w3: "fsp_mkdir env (segmentsDir file) ?wm = (Inr (), w3)"
    "trace w3 = trace ?wm @ [Mkdir (segmentsDir file)]"
    "fs w3 (segmentsDir file) = Some (Dir (entries_of (fs w (segmentsDir file))))"
    by auto
  from splitAudioFile_ok [OF assms(7-9) w3(3)]
  obtain w4 where w4: "splitAudioFile env (tempFilePath file) (segmentsDir file) w3 =
      (Inr (segment_files (listing_after (entries_of (fs w (segmentsDir file))) written)), w4)"
    "trace w4 = trace w3 @ [SplitAudioFile (tempFilePath file) (segmentsDir file),
        Ffprobe (tempFilePath file),
        Ffmpeg (tempFilePath file) (path_join (segmentsDir file) ''segment_%03d.mp3''),
        Readdir (segmentsDir file)]"
    by blast
  have "trace w4 = trace w @
        [Download (url_private file) (tempFilePath file), Stat (tempFilePath file),
         Mkdir (segmentsDir file), SplitAudioFile (tempFilePath file) (segmentsDir file),
         Ffprobe (tempFilePath file),
         Ffmpeg (tempFilePath file) (path_join (segmentsDir file) ''segment_%03d.mp3''),
         Readdir (segmentsDir file)]"
    using w3(2) w4(2) by simp
  moreover have "processAudioFile_try env file ch w =
        (case transcribeSegments env (segmentsDir file)
                (segment_files (listing_after (entries_of (fs w (segmentsDir file))) written)) [] w4 of
           (Inl e, w5) \<Rightarrow> (Inl e, Some (segmentsDir file), w5)
         | (Inr transcriptionText, w5) \<Rightarrow>
             (case postResult env file ch transcriptionText w5 of
                (r, w6) \<Rightarrow> (r, Some (segmentsDir file), w6)))"
    unfolding tr by (simp add: splitBranch_def w3(1) w4(1) Let_def)
  ultimately show ?thesis by blast
qed

lemma postResult_eq:
  "postResult env file ch t w =
     ((case postMessage env ch (result_text (file_name file) t) of Some e \<Rightarrow> Inl e | None \<Rightarrow> Inr ()),
      emit (PostMessage ch (result_text (file_name file) t)) w)"
  by (simp add: postResult_def Let_def split: option.split)


text \<open>The calls of a run that splits and transcribes every segment.\<close>

lemma split_run_ok:
  assumes "fetch env (url_private file) = Fetched n"
    and "\<not> isDir (fs w (tempFilePath file))"
    and "stat_fault env (tempFilePath file) = None"
    and "26214400 < n"
    and "mkdir_fault env (segmentsDir file) = None"
    and "\<not> isFile (fs w (segmentsDir file))"
    and "ffprobe env (tempFilePath file) = None"
    and "ffmpeg env (tempFilePath file) (segmentsDir file) = FfmpegEnd written"
    and "readdir_fault env (segmentsDir file) = None"
    and "segs = segment_files (listing_after (entries_of (fs w (segmentsDir file))) written)"
    and "\<forall>s\<in>set segs. \<not> isl (transcribe env (path_join (segmentsDir file) s))"
    and "text = concat (map (\<lambda>s. heard_text env (path_join (segmentsDir file) s) @ '' '') segs)"
  shows "\<exists>w1. processAudioFile_try env file ch w =
       ((case postMessage env ch (result_text (file_name file) text) of
           Some e \<Rightarrow> Inl e | None \<Rightarrow> Inr ()), Some (segmentsDir file), w1) \<and>
     new_calls w w1 =
        [Download (url_private file) (tempFilePath file), Stat (tempFilePath file),
         Mkdir (segmentsDir file), SplitAudioFile (tempFilePath file) (segmentsDir file),
         Ffprobe (tempFilePath file),
         Ffmpeg (tempFilePath file) (path_join (segmentsDir file) ''segment_%03d.mp3''),
         Readdir (segmentsDir file)]
        @ map (\<lambda>s. Transcribe (path_join (segmentsDir file) s)) segs
        @ [PostMessage ch (result_text (file_name file) text)]"
proof -
  from try_split [OF assms(1-9), of ch] obtain w4 where
    w4: "trace w4 = trace w @
        [Download (url_private file) (tempFilePath file), Stat (tempFilePath file),
         Mkdir (segmentsDir file), SplitAudioFile (tempFilePath file) (segmentsDir file),
         Ffprobe (tempFilePath file),
         Ffmpeg (tempFilePath file) (path_join (segmentsDir file) ''segment_%03d.mp3''),
         Readdir (segmentsDir file)]"
    and tr: "processAudioFile_try env file ch w =
        (case transcribeSegments env (segmentsDir file) segs [] w4 of
           (Inl e, w5) \<Rightarrow> (Inl e, Some (segmentsDir file), w5)
         | (Inr transcriptionText, w5) \<Rightarrow>
             (case postResult env file ch transcriptionText w5 of
                (r, w6) \<Rightarrow> (r, Some (segmentsDir file), w6)))"
    unfolding assms(10) by blast
  from transcribeSegments_ok [OF assms(11), of "[]" w4] obtain w5 where
    w5: "transcribeSegments env (segmentsDir file) segs [] w4 = (Inr text, w5)"
      "trace w5 = trace w4 @ map (\<lambda>s. Transcribe (path_join (segmentsDir file) s)) segs"
    unfolding assms(12) by auto
  let ?w6 = "emit (PostMessage ch (result_text (file_name file) text)) w5"
  have "processAudioFile_try env file ch w =
       ((case postMessage env ch (result_text (file_name file) text) of
           Some e \<Rightarrow> Inl e | None \<Rightarrow> Inr ()), Some (segmentsDir file), ?w6)"
    unfolding tr by (simp add: w5(1) postResult_eq)
  moreover have "new_calls w ?w6 =
        [Download (url_private file) (tempFilePath file), Stat (tempFilePath file),
         Mkdir (segmentsDir file), SplitAudioFile (tempFilePath file) (segmentsDir file),
         Ffprobe (tempFilePath file),
         Ffmpeg (tempFilePath file) (path_join (segmentsDir file) ''segment_%03d.mp3''),
         Readdir (segmentsDir file)]
        @ map (\<lambda>s. Transcribe (path_join (segmentsDir file) s)) segs
        @ [PostMessage ch (result_text (file_name file) text)]"
    by (rule new_calls_app) (simp add: w4 w5(2))
  ultimately show ?thesis by blast
qed

lemma split_run_fail:
  assumes "fetch env (url_private file) = Fetched n"
    and "\<not> isDir (fs w (tempFilePath file))"
    and "stat_fault env (tempFilePath file) = None"
    and "26214400 < n"
    and "mkdir_fault env (segmentsDir file) = None"
    and "\<not> isFile (fs w (segmentsDir file))"
    and "ffprobe env (tempFilePath file) = None"
    and "ffmpeg env (tempFilePath file) (segmentsDir file) = FfmpegEnd written"
    and "readdir_fault env (segmentsDir file) = None"
    and "segment_files (listing_after (entries_of (fs w (segmentsDir file))) written) = pre @ s # post"
    and "\<forall>x\<in>set pre. \<not> isl (transcribe env (path_join (segmentsDir file) x))"
    and "transcribe env (path_join (segmentsDir file) s) = Inl e"
  shows "\<exists>w1. processAudioFile_try env file ch w = (Inl e, Some (segmentsDir file), w1) \<and>
     new_calls w w1 =
        [Download (url_private file) (tempFilePath file), Stat (tempFilePath file),
         Mkdir (segmentsDir file), SplitAudioFile (tempFilePath file) (segmentsDir file),
         Ffprobe (tempFilePath file),
         Ffmpeg (tempFilePath file) (path_join (segmentsDir file) ''segment_%03d.mp3''),
         Readdir (segmentsDir file)]
        @ map (\<lambda>x. Transcribe (path_join (segmentsDir file) x)) (pre @ [s])"
proof -
  from try_split [OF assms(1-9), of ch] obtain w4 where
    w4: "trace w4 = trace w @
        [Download (url_private file) (tempFilePath file), Stat (tempFilePath file),
         Mkdir (segmentsDir file), SplitAudioFile (tempFilePath file) (segmentsDir file),
         Ffprobe (tempFilePath file),
         Ffmpeg (tempFilePath file) (path_join (segmentsDir file) ''segment_%03d.mp3''),
         Readdir (segmentsDir file)]"
    and tr: "processAudioFile_try env file ch w =
        (case transcribeSegments env (segmentsDir file) (pre @ s # post) [] w4 of
           (Inl e, w5) \<Rightarrow> (Inl e, Some (segmentsDir file), w5)
         | (Inr transcriptionText, w5) \<Rightarrow>
             (case postResult env file ch transcriptionText w5 of
                (r, w6) \<Rightarrow> (r, Some (segmentsDir file), w6)))"
    unfolding assms(10) by blast
  from transcribeSegments_fail [OF assms(11,12), of post "[]" w4] obtain w5 where
    w5: "transcribeSegments env (segmentsDir file) (pre @ s # post) [] w4 = (Inl e, w5)"
      "trace w5 = trace w4 @ map (\<lambda>x. Transcribe (path_join (segmentsDir file) x)) (pre @ [s])"
    by auto
  have "processAudioFile_try env file ch w = (Inl e, Some (segmentsDir file), w5)"
    unfolding tr by (simp add: w5(1))
  moreover have "new_calls w w5 =
        [Download (url_private file) (tempFilePath file), Stat (tempFilePath file),
         Mkdir (segmentsDir file), SplitAudioFile (tempFilePath file) (segmentsDir file),
         Ffprobe (tempFilePath file),
         Ffmpeg (tempFilePath file) (path_join (segmentsDir file) ''segment_%03d.mp3''),
         Readdir (segmentsDir file)]
        @ map (\<lambda>x. Transcribe (path_join (segmentsDir file) x)) (pre @ [s])"
    by (rule new_calls_app) (simp add: w4 w5(2))
  ultimately show ?thesis by blast
qed

lemma filter_map_Transcribe [simp]:
  "filter is_Transcribe (map (\<lambda>s. Transcribe (g s)) xs) = map (\<lambda>s. Transcribe (g s)) xs"
  "filter is_PostMessage (map (\<lambda>s. Transcribe (g s)) xs) = []"
  "filter is_SplitAudioFile (map (\<lambda>s. Transcribe (g s)) xs) = []"
  "filter is_Mkdir (map (\<lambda>s. Transcribe (g s)) xs) = []"
  by (induction xs) simp_all

lemma kinds_pipeline:
  "is_Transcribe x \<Longrightarrow> pipeline_call x" "is_PostMessage x \<Longrightarrow> pipeline_call x"
  "is_SplitAudioFile x \<Longrightarrow> pipeline_call x" "is_Mkdir x \<Longrightarrow> pipeline_call x"
  "is_Download x \<Longrightarrow> pipeline_call x"
  by (simp_all add: pipeline_call_def)

lemma run_fst: "fst (processAudioFile env file ch w) = fst (processAudioFile_try env file ch w)"
  by (simp add: processAudioFile_def split: prod.split sum.split)

text \<open>The calls of a run that does not split.\<close>

lemma direct_run:
  assumes "fetch env (url_private f) = Fetched n"
    and "\<not> isDir (fs w (tempFilePath f))"
    and "stat_fault env (tempFilePath f) = None"
    and "n \<le> 26214400"
  shows "\<exists>w1. processAudioFile_try env f ch w =
       ((case transcribe env (tempFilePath f) of
           Inl e \<Rightarrow> Inl e
         | Inr t \<Rightarrow> (case postMessage env ch (result_text (file_name f) t) of
                      Some e \<Rightarrow> Inl e | None \<Rightarrow> Inr ())), None, w1) \<and>
     new_calls w w1 =
        [Download (url_private f) (tempFilePath f), Stat (tempFilePath f),
         Transcribe (tempFilePath f)]
        @ (case transcribe env (tempFilePath f) of
             Inl e \<Rightarrow> []
           | Inr t \<Rightarrow> [PostMessage ch (result_text (file_name f) t)])"
proof -
  let ?wm = "emit (Stat (tempFilePath f))
          (put (tempFilePath f) (Some (File n))
            (emit (Download (url_private f) (tempFilePath f)) w))"
  have tr: "processAudioFile_try env f ch w = directBranch env f ch ?wm"
    using try_measured [OF assms(1-3)] assms(4) by simp
  show ?thesis
  proof (cases "transcribe env (tempFilePath f)")
    case (Inl e)
    then show ?thesis
      unfolding tr by (simp add: directBranch_def transcribeAudio_def new_calls_def)
  next
    case (Inr t)
    then show ?thesis
      unfolding tr
      by (simp add: directBranch_def transcribeAudio_def postResult_eq new_calls_def)
  qed
qed





subsection \<open>The order of the generated names\<close>

lemma digit_less: "a < 10 \<Longrightarrow> b < 10 \<Longrightarrow> (digit a < digit b) = (a < b)"
  by (simp add: digit_def less_char_def)

lemma digit_eq: "a < 10 \<Longrightarrow> b < 10 \<Longrightarrow> (digit a = digit b) = (a = b)"
  by (simp add: digit_def char_of_quasi_inj)

lemma pad3_dec:
  assumes "i < 1000"
  shows "pad3 (dec i) = [digit (i div 100), digit (i div 10 mod 10), digit (i mod 10)]"
proof -
  have "char_of (of_char CHR ''0'' :: nat) = CHR ''0''"
    by (rule char_of_char)
  then have zero: "digit 0 = CHR ''0''"
    by (simp add: digit_def)
  have pad1: "pad3 [a] = [CHR ''0'', CHR ''0'', a]" for a
    by (simp add: pad3_def eval_nat_numeral)
  have pad2: "pad3 [a, b] = [CHR ''0'', a, b]" for a b
    by (simp add: pad3_def eval_nat_numeral)
  have pad3: "pad3 [a, b, c] = [a, b, c]" for a b c
    by (simp add: pad3_def)
  consider "i < 10" | "10 \<le> i" "i < 100" | "100 \<le> i"
    by linarith
  then show ?thesis
  proof cases
    case 1
    then have "dec i = [digit i]"
      by (simp add: dec.simps [of i])
    moreover from 1 have "i div 100 = 0" "i div 10 mod 10 = 0" "i mod 10 = i"
      by simp_all
    ultimately show ?thesis
      by (simp only: pad1 zero)
  next
    case 2
    then have d: "i div 10 < 10" "\<not> i < 10"
      by simp_all
    have "dec i = dec (i div 10) @ [digit (i mod 10)]"
      using d(2) by (simp add: dec.simps [of i])
    also have "dec (i div 10) = [digit (i div 10)]"
      using d(1) by (simp add: dec.simps [of "i div 10"])
    finally have "dec i = [digit (i div 10), digit (i mod 10)]"
      by simp
    moreover from 2 have "i div 100 = 0" "i div 10 mod 10 = i div 10"
      by simp_all
    ultimately show ?thesis
      by (simp only: pad2 zero)
  next
    case 3
    with assms have d: "\<not> i < 10" "\<not> i div 10 < 10" "i div 10 div 10 < 10"
      by simp_all
    have e: "i div 10 div 10 = i div 100"
      by (simp add: div_mult2_eq [symmetric])
    have "dec i = dec (i div 10) @ [digit (i mod 10)]"
      using d(1) by (simp add: dec.simps [of i])
    also have "dec (i div 10) = dec (i div 10 div 10) @ [digit (i div 10 mod 10)]"
      using d(2) by (simp add: dec.simps [of "i div 10"])
    also have "dec (i div 10 div 10) = [digit (i div 10 div 10)]"
      using d(3) by (simp add: dec.simps [of "i div 10 div 10"])
    finally have "dec i = [digit (i div 100), digit (i div 10 mod 10), digit (i mod 10)]"
      by (simp add: e)
    then show ?thesis
      by (simp only: pad3)
  qed
qed

lemma digits3:
  fixes i :: nat
  shows "i = 100 * (i div 100) + 10 * (i div 10 mod 10) + i mod 10"
proof -
  have "i = 10 * (i div 10) + i mod 10"
    by simp
  moreover have "i div 10 = 10 * (i div 10 div 10) + i div 10 mod 10"
    by simp
  moreover have "i div 10 div 10 = i div 100"
    by (simp add: div_mult2_eq [symmetric])
  ultimately show ?thesis
    by linarith
qed

lemma digits3_lex:
  fixes a b c a' b' c' :: nat
  assumes "100 * a + 10 * b + c < 100 * a' + 10 * b' + c'"
    and "b < 10" "c < 10" "b' < 10" "c' < 10"
  shows "a < a' \<or> a = a' \<and> (b < b' \<or> b = b' \<and> c < c')"
  using assms by linarith

lemma segment_name_less:
  assumes "i < j" "j < 1000"
  shows "segment_name i < segment_name j"
proof -
  have i: "i < 1000" using assms by simp
  have b: "i div 100 < 10" "i div 10 mod 10 < 10" "i mod 10 < 10"
    "j div 100 < 10" "j div 10 mod 10 < 10" "j mod 10 < 10"
    using assms by simp_all
  have "100 * (i div 100) + 10 * (i div 10 mod 10) + i mod 10
      < 100 * (j div 100) + 10 * (j div 10 mod 10) + j mod 10"
    using assms(1) digits3 [of i] digits3 [of j] by simp
  then have lex: "i div 100 < j div 100 \<or>
        i div 100 = j div 100 \<and> (i div 10 mod 10 < j div 10 mod 10 \<or>
          i div 10 mod 10 = j div 10 mod 10 \<and> i mod 10 < j mod 10)"
    using b by (intro digits3_lex) simp_all
  have "[digit (i div 100), digit (i div 10 mod 10), digit (i mod 10)]
      < [digit (j div 100), digit (j div 10 mod 10), digit (j mod 10)]"
    using lex by (simp only: Cons_less_Cons digit_less b digit_eq) simp
  then have "pad3 (dec i) < pad3 (dec j)"
    by (simp only: pad3_dec [OF i] pad3_dec [OF assms(2)])
  then have "pad3 (dec i) @ ''.mp3'' < pad3 (dec j) @ ''.mp3''"
    by (simp only: pad3_dec [OF i] pad3_dec [OF assms(2)]) (simp only: append.simps Cons_less_Cons, simp)
  then show ?thesis
    by (simp add: segment_name_def)
qed

lemma segment_names_sorted: "k \<le> 1000 \<Longrightarrow> sorted (map segment_name [0..<k])"
proof -
  assume k: "k \<le> 1000"
  have "sorted_wrt (\<lambda>i j. segment_name i \<le> segment_name j) [0..<k]"
  proof (rule sorted_wrt_mono_rel [OF _ sorted_wrt_upt])
    fix i j
    assume "i \<in> set [0..<k]" "j \<in> set [0..<k]" "i < j"
    then show "segment_name i \<le> segment_name j"
      using segment_name_less [of i j] k by simp
  qed
  then show ?thesis
    by (simp add: sorted_wrt_map)
qed

lemma segment_names_distinct: "k \<le> 1000 \<Longrightarrow> distinct (map segment_name [0..<k])"
proof -
  assume k: "k \<le> 1000"
  have "inj_on segment_name {0..<k}"
  proof (rule linorder_inj_onI)
    fix i j
    assume "i < j" "i \<in> {0..<k}" "j \<in> {0..<k}"
    then show "segment_name i \<noteq> segment_name j"
      using segment_name_less [of i j] k by simp
  next
    fix i j :: nat
    show "i \<le> j \<or> j \<le> i"
      by linarith
  qed
  then show ?thesis
    by (simp add: distinct_map)
qed

lemma segment_name_prefix: "startsWith (segment_name i) ''segment_''"
  by (simp add: startsWith_def segment_name_def)

lemma segment_files_perm:
  assumes "mset l1 = mset l2"
  shows "segment_files l1 = segment_files l2"
proof -
  let ?P = "\<lambda>file. startsWith file ''segment_''"
  have "mset (filter ?P l1) = mset (filter ?P l2)"
    using assms by simp
  then have "mset (sort (filter ?P l2)) = mset (filter ?P l1)"
    by simp
  then have "sort (filter ?P l1) = sort (filter ?P l2)"
    by (rule properties_for_sort) simp
  then show ?thesis
    by (simp add: segment_files_def)
qed

lemma listing_after_perm:
  assumes "mset es' = mset es" "mset written' = mset written"
  shows "mset (listing_after es' written') = mset (listing_after es written)"
proof -
  have s: "set es' = set es" "set written' = set written"
    using assms by (auto dest: mset_eq_setD)
  have "set (filter (\<lambda>n. n \<notin> set es') written') = set (filter (\<lambda>n. n \<notin> set es) written)"
    using s by auto
  then have "mset (remdups (filter (\<lambda>n. n \<notin> set es') written')) =
      mset (remdups (filter (\<lambda>n. n \<notin> set es) written))"
    by (rule iffD1 [OF set_eq_iff_mset_remdups_eq])
  then show ?thesis
    using assms(1) by (simp add: listing_after_def)
qed

lemma segment_files_generated:
  assumes "k \<le> 1000" "mset written = mset (map segment_name [0..<k])"
  shows "segment_files (listing_after [] written) = map segment_name [0..<k]"
proof -
  have "distinct written"
    using mset_eq_imp_distinct_iff [OF assms(2)] segment_names_distinct [OF assms(1)] by simp
  then have l: "listing_after [] written = written"
    by (simp add: listing_after_def)
  have "set written = set (map segment_name [0..<k])"
    using assms(2) by (rule mset_eq_setD)
  then have "\<forall>x\<in>set written. startsWith x ''segment_''"
    using segment_name_prefix by auto
  then have "filter (\<lambda>file. startsWith file ''segment_'') written = written"
    by simp
  then have "segment_files written = sort written"
    by (simp add: segment_files_def)
  also have "\<dots> = map segment_name [0..<k]"
    using assms(2) segment_names_sorted [OF assms(1)]
    by (intro properties_for_sort) simp_all
  finally show ?thesis
    by (simp add: l)
qed

text \<open>With a fourth digit the order of the names is no longer the order of the numbers.\<close>

lemma segment_name_1000_before_101: "segment_name 1000 < segment_name 101"
  by (simp add: segment_name_def pad3_def digit_def less_char_def dec.simps)

lemma filter_fixed [simp]:
  "filter is_SplitAudioFile (map (\<lambda>s. Transcribe (g s)) xs) = []"
  "filter is_Download (map (\<lambda>s. Transcribe (g s)) xs) = []"
  by (induction xs) simp_all

subsection \<open>The first names, evaluated\<close>

lemma digit_numerals:
  "digit 0 = CHR ''0''" "digit 1 = CHR ''1''" "digit 2 = CHR ''2''" "digit 3 = CHR ''3''"
  "digit 4 = CHR ''4''" "digit 5 = CHR ''5''" "digit 6 = CHR ''6''" "digit 7 = CHR ''7''"
  "digit 8 = CHR ''8''" "digit 9 = CHR ''9''" "digit (Suc 0) = CHR ''1''"
  using char_of_char [of "CHR ''0''", where ?'a = nat] char_of_char [of "CHR ''1''", where ?'a = nat]
    char_of_char [of "CHR ''2''", where ?'a = nat] char_of_char [of "CHR ''3''", where ?'a = nat]
    char_of_char [of "CHR ''4''", where ?'a = nat] char_of_char [of "CHR ''5''", where ?'a = nat]
    char_of_char [of "CHR ''6''", where ?'a = nat] char_of_char [of "CHR ''7''", where ?'a = nat]
    char_of_char [of "CHR ''8''", where ?'a = nat] char_of_char [of "CHR ''9''", where ?'a = nat]
  by (simp_all add: digit_def)

lemma first_segment_names:
  "map segment_name [0..<3] = [''segment_000.mp3'', ''segment_001.mp3'', ''segment_002.mp3'']"
proof -
  have "[0..<3] = [0, 1, 2 :: nat]"
    by (simp add: upt_rec)
  moreover have "segment_name 0 = ''segment_000.mp3''" "segment_name 1 = ''segment_001.mp3''"
    "segment_name 2 = ''segment_002.mp3''"
    by (simp_all add: segment_name_def pad3_dec digit_numerals)
  ultimately show ?thesis
    by simp
qed

subsection \<open>Where the directory is made\<close>

lemma split_call_simps [simp]:
  "split_call (SplitAudioFile i d)" "split_call (Ffprobe p)" "split_call (Ffmpeg i d)"
  "split_call (Readdir p)" "split_call (Transcribe p)" "split_call (PostMessage c t)"
  "\<not> split_call (Mkdir p)"
  by (simp_all add: split_call_def)

lemma fsp_readdir_split_call:
  "fsp_readdir env p w = (r, w') \<Longrightarrow> appends split_call w0 w \<Longrightarrow> appends split_call w0 w'"
  by (auto simp add: fsp_readdir_def Let_def appends_emit split: option.splits node.splits)

lemma postResult_split_call:
  "postResult env f c t w = (r, w') \<Longrightarrow> appends split_call w0 w \<Longrightarrow> appends split_call w0 w'"
  by (auto simp add: postResult_def Let_def appends_emit split: option.splits)

lemma splitAudioFile_split_call:
  assumes "splitAudioFile env i d w = (r, w')" and "appends split_call w0 w"
  shows "appends split_call w0 w'"
proof -
  let ?w1 = "emit (Ffprobe i) (emit (SplitAudioFile i d) w)"
  let ?w2 = "emit (Ffmpeg i (path_join d ''segment_%03d.mp3'')) ?w1"
  have a1: "appends split_call w0 ?w1"
    using assms(2) by (simp add: appends_emit)
  then have a2: "appends split_call w0 ?w2"
    by (simp add: appends_emit)
  show ?thesis
    using assms(1) a1 a2
    by (auto simp add: splitAudioFile_def Let_def
        split: option.splits ffmpeg_outcome.splits prod.splits sum.splits
        dest: fsp_readdir_split_call intro: appends_write_segments)
qed

lemma transcribeSegments_split_call:
  "transcribeSegments env d segs acc w = (r, w') \<Longrightarrow> appends split_call w0 w \<Longrightarrow>
     appends split_call w0 w'"
proof (induction segs arbitrary: acc w)
  case Nil
  then show ?case by simp
next
  case (Cons s segs)
  from Cons.prems(2) have "appends split_call w0 (emit (Transcribe (path_join d s)) w)"
    by (simp add: appends_emit)
  with Cons.prems(1) Cons.IH show ?case
    by (auto simp add: transcribeAudio_def split: sum.splits)
qed

lemma splitBranch_mkdir_first:
  assumes "splitBranch env f c w = (r, od, w')"
  shows "\<exists>evs. trace w' = trace w @ Mkdir (segmentsDir f) # evs \<and> list_all split_call evs"
proof -
  obtain r1 w1 where m: "fsp_mkdir env (segmentsDir f) w = (r1, w1)"
    by (cases "fsp_mkdir env (segmentsDir f) w") simp
  then have t1: "trace w1 = trace w @ [Mkdir (segmentsDir f)]"
    by (auto simp add: fsp_mkdir_def Let_def split: option.splits node.splits)
  have "appends split_call w1 w'"
    using assms m
    by (auto simp add: splitBranch_def Let_def split: sum.splits prod.splits
        dest: postResult_split_call transcribeSegments_split_call
        dest!: splitAudioFile_split_call [OF _ appends_refl])
  then show ?thesis
    using t1 by (auto simp add: appends_def)
qed

lemma try_mkdir_calls:
  assumes "processAudioFile_try env f ch w = (r, od, w1)"
  shows "filter is_Mkdir (new_calls w w1) =
     (if (\<exists>n. fetch env (url_private f) = Fetched n \<and> 26214400 < n)
         \<and> \<not> isDir (fs w (tempFilePath f)) \<and> stat_fault env (tempFilePath f) = None
      then [Mkdir (segmentsDir f)] else [])
   \<and> ((\<exists>n. fetch env (url_private f) = Fetched n \<and> 26214400 < n)
         \<and> \<not> isDir (fs w (tempFilePath f)) \<and> stat_fault env (tempFilePath f) = None
       \<or> od = None \<and> fs w1 (segmentsDir f) = fs w (segmentsDir f))"
proof -
  let ?d = "Download (url_private f) (tempFilePath f)"
  obtain r1 wd where d: "downloadFile env (url_private f) (tempFilePath f) w = (r1, wd)"
    by (cases "downloadFile env (url_private f) (tempFilePath f) w") simp
  have td: "trace wd = trace w @ [?d]"
    using d by (auto simp add: downloadFile_def Let_def split: fetch_outcome.splits if_splits)
  have fd: "fs wd (segmentsDir f) = fs w (segmentsDir f)"
    using downloadFile_frame [OF d, of "segmentsDir f"] by simp
  show ?thesis
  proof (cases r1)
    case (Inl e)
    then have "\<not> ((\<exists>n. fetch env (url_private f) = Fetched n) \<and> \<not> isDir (fs w (tempFilePath f)))"
      using d by (auto simp add: downloadFile_ok)
    moreover have "od = None" "w1 = wd"
      using assms d Inl by (simp_all add: processAudioFile_try_def)
    ultimately show ?thesis
      using td fd by (auto simp add: new_calls_def)
  next
    case (Inr u)
    then obtain n where n: "fetch env (url_private f) = Fetched n" "\<not> isDir (fs w (tempFilePath f))"
      using d by (auto simp add: downloadFile_def Let_def split: fetch_outcome.splits if_splits)
    show ?thesis
    proof (cases "stat_fault env (tempFilePath f)")
      case (Some e)
      then have "processAudioFile_try env f ch w = (Inl e, None, emit (Stat (tempFilePath f)) wd)"
        using d Inr by (simp add: processAudioFile_try_def fsp_stat_def)
      with assms have "od = None" "w1 = emit (Stat (tempFilePath f)) wd"
        by simp_all
      then show ?thesis
        using Some td fd by (simp add: new_calls_def)
    next
      case None
      let ?wm = "emit (Stat (tempFilePath f))
          (put (tempFilePath f) (Some (File n))
            (emit (Download (url_private f) (tempFilePath f)) w))"
      note tm = try_measured [OF n None, of ch]
      show ?thesis
      proof (cases "26214400 < n")
        case True
        with tm assms have "splitBranch env f ch ?wm = (r, od, w1)"
          by simp
        from splitBranch_mkdir_first [OF this] obtain evs where
          evs: "trace w1 = trace w @ ([?d, Stat (tempFilePath f), Mkdir (segmentsDir f)] @ evs)"
          "list_all split_call evs"
          by auto
        have "new_calls w w1 = [?d, Stat (tempFilePath f), Mkdir (segmentsDir f)] @ evs"
          using evs(1) by (rule new_calls_app)
        moreover have "filter is_Mkdir evs = []"
          using evs(2) by (rule filter_none) (auto simp add: split_call_def)
        ultimately show ?thesis
          using True n None by simp
      next
        case False
        then have le: "n \<le> 26214400"
          by simp
        from direct_run [OF n None le, of ch] assms obtain
          "od = None" "new_calls w w1 = [?d, Stat (tempFilePath f), Transcribe (tempFilePath f)]
            @ (case transcribe env (tempFilePath f) of
                 Inl e \<Rightarrow> []
               | Inr t \<Rightarrow> [PostMessage ch (result_text (file_name f) t)])"
          by auto
        moreover have "fs w1 (segmentsDir f) = fs w (segmentsDir f)"
          using try_effect [OF assms] \<open>od = None\<close> by simp
        ultimately show ?thesis
          using False n by (simp split: sum.split)
      qed
    qed
  qed
qed

lemma cleanupFiles_None_frame:
  "q \<noteq> t \<Longrightarrow> fs (cleanupFiles env t None w) q = fs w q"
  by (simp add: cleanupFiles_def cleanupFiles_try_def cleanup_tempFile_def cleanup_outputDir_def
      fsp_access_def fsp_unlink_def Let_def split: option.split node.split)

lemma run_dir_untouched:
  assumes "processAudioFile_try env f ch w = (r, None, w1)"
  shows "fs (snd (processAudioFile env f ch w)) (segmentsDir f) = fs w1 (segmentsDir f)"
  using assms
  by (simp add: processAudioFile_def cleanupFiles_None_frame split: sum.split)


subsection \<open>The handler\<close>

lemma run_extends:
  "\<exists>evs. trace (snd (processAudioFile env f c w)) = trace w @ evs \<and> list_all run_call evs"
proof -
  obtain r od w1 where t: "processAudioFile_try env f c w = (r, od, w1)"
    by (cases "processAudioFile_try env f c w") auto
  from try_appends [OF t appends_refl]
  obtain evs where evs: "trace w1 = trace w @ evs" "list_all pipeline_call evs"
    by (auto simp add: appends_def)
  define w2 where "w2 = (case r of Inl e \<Rightarrow> emit (ConsoleError ''Error processing audio file:'' e) w1 | Inr u \<Rightarrow> w1)"
  have w2: "snd (processAudioFile env f c w) = cleanupFiles env (tempFilePath f) od w2"
    using t by (auto simp add: w2_def processAudioFile_def split: sum.splits)
  have "\<exists>evs2. trace w2 = trace w @ evs2 \<and> list_all run_call evs2"
  proof (cases r)
    case (Inl e)
    then have "trace w2 = trace w @ (evs @ [ConsoleError ''Error processing audio file:'' e])"
      using evs(1) by (simp add: w2_def)
    moreover have "list_all run_call (evs @ [ConsoleError ''Error processing audio file:'' e])"
      using evs(2) by (simp add: run_call_def list_all_iff)
    ultimately show ?thesis by blast
  next
    case (Inr u)
    then have "trace w2 = trace w @ evs"
      using evs(1) by (simp add: w2_def)
    moreover have "list_all run_call evs"
      using evs(2) by (simp add: run_call_def list_all_iff)
    ultimately show ?thesis by blast
  qed
  then obtain evs2 where evs2: "trace w2 = trace w @ evs2" "list_all run_call evs2"
    by blast
  from cleanupFiles_trace [of env "tempFilePath f" od w2]
  obtain cs where cs: "trace (cleanupFiles env (tempFilePath f) od w2) =
        trace w2 @ CleanupFiles (tempFilePath f) od # cs" "list_all cleanup_call cs"
    by blast
  have "trace (snd (processAudioFile env f c w)) =
      trace w @ (evs2 @ CleanupFiles (tempFilePath f) od # cs)"
    using w2 cs(1) evs2(1) by simp
  moreover have "list_all run_call (evs2 @ CleanupFiles (tempFilePath f) od # cs)"
    using evs2(2) cs(2) by (auto simp add: run_call_def list_all_iff)
  ultimately show ?thesis by blast
qed

lemma processAudioFile_appends:
  "processAudioFile env f c w = (r, w') \<Longrightarrow> appends run_call w0 w \<Longrightarrow> appends run_call w0 w'"
  using run_extends [of env f c w] by (auto simp add: appends_def)

lemma processFiles_appends:
  "processFiles env c fs0 w = (r, w') \<Longrightarrow> appends run_call w0 w \<Longrightarrow> appends run_call w0 w'"
proof (induction fs0 arbitrary: w)
  case Nil
  then show ?case by simp
next
  case (Cons x fs0)
  then show ?case
    by (auto split: sum.splits prod.splits dest: processAudioFile_appends)
qed

lemma processFiles_stops:
  assumes "processFiles env c pre w = (Inr (), w1)"
    and "processAudioFile env x c w1 = (Inl e, w2)"
  shows "processFiles env c (pre @ x # post) w = (Inl e, w2)"
  using assms(1)
proof (induction pre arbitrary: w)
  case Nil
  then show ?case
    using assms(2) by simp
next
  case (Cons y pre)
  then show ?case
    by (auto split: sum.splits prod.splits)
qed

lemma sayMessage_eq:
  "sayMessage env t w = ((case say env t of Some e \<Rightarrow> Inl e | None \<Rightarrow> Inr ()), emit (Say t) w)"
  by (simp add: sayMessage_def split: option.split)

subsection \<open>The runs that fail\<close>

lemma trace_write_segments [simp]: "trace (write_segments d ns w) = trace w"
  by (simp add: write_segments_def split: option.split node.split)

lemma filter_pipeline_Transcribe [simp]:
  "filter pipeline_call (map (\<lambda>s. Transcribe (g s)) xs) = map (\<lambda>s. Transcribe (g s)) xs"
  by (induction xs) simp_all

lemma run_fails:
  assumes "processAudioFile_try env f ch w = (Inl e, od, w1)"
    and "new_calls w w1 = calls"
    and "filter pipeline_call calls = calls"
  shows "fails_with env f ch w e calls"
proof -
  have "filter pipeline_call (new_calls w (snd (processAudioFile env f ch w))) =
      filter pipeline_call (new_calls w w1)"
    using assms(1) by (rule run_filter)
  then show ?thesis
    using assms by (simp add: fails_with_def run_fst)
qed

lemma download_fails:
  assumes "fst (downloadFile env (url_private f) (tempFilePath f) w) = Inl e"
  shows "fails_with env f ch w e [Download (url_private f) (tempFilePath f)]"
proof -
  obtain wd where d: "downloadFile env (url_private f) (tempFilePath f) w = (Inl e, wd)"
    using assms by (cases "downloadFile env (url_private f) (tempFilePath f) w") simp
  then have "trace wd = trace w @ [Download (url_private f) (tempFilePath f)]"
    by (auto simp add: downloadFile_def Let_def split: fetch_outcome.splits if_splits)
  then have "new_calls w wd = [Download (url_private f) (tempFilePath f)]"
    by (rule new_calls_app)
  moreover have "processAudioFile_try env f ch w = (Inl e, None, wd)"
    using d by (simp add: processAudioFile_try_def)
  ultimately show ?thesis
    by (intro run_fails) simp_all
qed

lemma stat_fails:
  assumes "fetch env (url_private f) = Fetched n"
    and "\<not> isDir (fs w (tempFilePath f))"
    and "stat_fault env (tempFilePath f) = Some e"
  shows "fails_with env f ch w e
     [Download (url_private f) (tempFilePath f), Stat (tempFilePath f)]"
proof -
  let ?wd = "put (tempFilePath f) (Some (File n))
            (emit (Download (url_private f) (tempFilePath f)) w)"
  have "processAudioFile_try env f ch w = (Inl e, None, emit (Stat (tempFilePath f)) ?wd)"
    using assms by (simp add: processAudioFile_try_def downloadFile_ok fsp_stat_def)
  moreover have "new_calls w (emit (Stat (tempFilePath f)) ?wd) =
      [Download (url_private f) (tempFilePath f), Stat (tempFilePath f)]"
    by (simp add: new_calls_def)
  ultimately show ?thesis
    by (intro run_fails) simp_all
qed

lemma direct_fails:
  assumes "fetch env (url_private f) = Fetched n"
    and "\<not> isDir (fs w (tempFilePath f))"
    and "stat_fault env (tempFilePath f) = None"
    and "n \<le> 26214400"
  shows "transcribe env (tempFilePath f) = Inl e \<Longrightarrow>
      fails_with env f ch w e
        [Download (url_private f) (tempFilePath f), Stat (tempFilePath f),
         Transcribe (tempFilePath f)]"
    and "transcribe env (tempFilePath f) = Inr t \<Longrightarrow>
      postMessage env ch (result_text (file_name f) t) = Some e \<Longrightarrow>
      fails_with env f ch w e
        [Download (url_private f) (tempFilePath f), Stat (tempFilePath f),
         Transcribe (tempFilePath f), PostMessage ch (result_text (file_name f) t)]"
proof -
  from direct_run [OF assms, of ch] obtain w1 where
    tr: "processAudioFile_try env f ch w =
       ((case transcribe env (tempFilePath f) of
           Inl e \<Rightarrow> Inl e
         | Inr t \<Rightarrow> (case postMessage env ch (result_text (file_name f) t) of
                      Some e \<Rightarrow> Inl e | None \<Rightarrow> Inr ())), None, w1)"
    and calls: "new_calls w w1 =
        [Download (url_private f) (tempFilePath f), Stat (tempFilePath f),
         Transcribe (tempFilePath f)]
        @ (case transcribe env (tempFilePath f) of
             Inl e \<Rightarrow> []
           | Inr t \<Rightarrow> [PostMessage ch (result_text (file_name f) t)])"
    by blast
  show "fails_with env f ch w e
        [Download (url_private f) (tempFilePath f), Stat (tempFilePath f),
         Transcribe (tempFilePath f)]"
    if "transcribe env (tempFilePath f) = Inl e"
    using tr calls that by (intro run_fails [where ?w1.0 = w1 and od = None]) simp_all
  show "fails_with env f ch w e
        [Download (url_private f) (tempFilePath f), Stat (tempFilePath f),
         Transcribe (tempFilePath f), PostMessage ch (result_text (file_name f) t)]"
    if "transcribe env (tempFilePath f) = Inr t"
      "postMessage env ch (result_text (file_name f) t) = Some e"
    using tr calls that by (intro run_fails [where ?w1.0 = w1 and od = None]) simp_all
qed

text \<open>The split branch, left at \<open>mkdir\<close> or inside \<open>splitAudioFile\<close>.\<close>

lemma splitBranch_mkdir_fails:
  "mkdir_fault env (segmentsDir f) = Some e \<Longrightarrow>
     splitBranch env f ch w = (Inl e, Some (segmentsDir f), emit (Mkdir (segmentsDir f)) w)"
  "mkdir_fault env (segmentsDir f) = None \<Longrightarrow> isFile (fs w (segmentsDir f)) \<Longrightarrow>
     splitBranch env f ch w =
       (Inl (Error ''EEXIST''), Some (segmentsDir f), emit (Mkdir (segmentsDir f)) w)"
  by (auto simp add: splitBranch_def fsp_mkdir_def Let_def isFile_def
      split: option.splits node.splits)

lemma splitBranch_split_fails:
  assumes "mkdir_fault env (segmentsDir f) = None"
    and "\<not> isFile (fs w (segmentsDir f))"
  shows "ffprobe env (tempFilePath f) = Some err \<Longrightarrow>
      \<exists>w1. splitBranch env f ch w =
        (Inl (Error (''FFprobe failed: '' @ message err)), Some (segmentsDir f), w1) \<and>
        trace w1 = trace w @ [Mkdir (segmentsDir f),
          SplitAudioFile (tempFilePath f) (segmentsDir f), Ffprobe (tempFilePath f)]"
    and "ffprobe env (tempFilePath f) = None \<Longrightarrow>
      ffmpeg env (tempFilePath f) (segmentsDir f) = FfmpegError written err \<Longrightarrow>
      \<exists>w1. splitBranch env f ch w =
        (Inl (Error (''FFmpeg failed: '' @ message err)), Some (segmentsDir f), w1) \<and>
        trace w1 = trace w @ [Mkdir (segmentsDir f),
          SplitAudioFile (tempFilePath f) (segmentsDir f), Ffprobe (tempFilePath f),
          Ffmpeg (tempFilePath f) (path_join (segmentsDir f) ''segment_%03d.mp3'')]"
    and "ffprobe env (tempFilePath f) = None \<Longrightarrow>
      ffmpeg env (tempFilePath f) (segmentsDir f) = FfmpegEnd written \<Longrightarrow>
      readdir_fault env (segmentsDir f) = Some err \<Longrightarrow>
      \<exists>w1. splitBranch env f ch w =
        (Inl (Error (''Failed to read output directory: '' @ message err)),
         Some (segmentsDir f), w1) \<and>
        trace w1 = trace w @ [Mkdir (segmentsDir f),
          SplitAudioFile (tempFilePath f) (segmentsDir f), Ffprobe (tempFilePath f),
          Ffmpeg (tempFilePath f) (path_join (segmentsDir f) ''segment_%03d.mp3''),
          Readdir (segmentsDir f)]"
proof -
  from fsp_mkdir_ok [OF assms] obtain w3 where
    w3: "fsp_mkdir env (segmentsDir f) w = (Inr (), w3)"
      "trace w3 = trace w @ [Mkdir (segmentsDir f)]"
    by blast
  show "\<exists>w1. splitBranch env f ch w =
        (Inl (Error (''FFprobe failed: '' @ message err)), Some (segmentsDir f), w1) \<and>
        trace w1 = trace w @ [Mkdir (segmentsDir f),
          SplitAudioFile (tempFilePath f) (segmentsDir f), Ffprobe (tempFilePath f)]"
    if "ffprobe env (tempFilePath f) = Some err"
    using that w3 by (simp add: splitBranch_def splitAudioFile_def Let_def)
  show "\<exists>w1. splitBranch env f ch w =
        (Inl (Error (''FFmpeg failed: '' @ message err)), Some (segmentsDir f), w1) \<and>
        trace w1 = trace w @ [Mkdir (segmentsDir f),
          SplitAudioFile (tempFilePath f) (segmentsDir f), Ffprobe (tempFilePath f),
          Ffmpeg (tempFilePath f) (path_join (segmentsDir f) ''segment_%03d.mp3'')]"
    if "ffprobe env (tempFilePath f) = None"
      "ffmpeg env (tempFilePath f) (segmentsDir f) = FfmpegError written err"
    using that w3 by (simp add: splitBranch_def splitAudioFile_def Let_def)
  show "\<exists>w1. splitBranch env f ch w =
        (Inl (Error (''Failed to read output directory: '' @ message err)),
         Some (segmentsDir f), w1) \<and>
        trace w1 = trace w @ [Mkdir (segmentsDir f),
          SplitAudioFile (tempFilePath f) (segmentsDir f), Ffprobe (tempFilePath f),
          Ffmpeg (tempFilePath f) (path_join (segmentsDir f) ''segment_%03d.mp3''),
          Readdir (segmentsDir f)]"
    if "ffprobe env (tempFilePath f) = None"
      "ffmpeg env (tempFilePath f) (segmentsDir f) = FfmpegEnd written"
      "readdir_fault env (segmentsDir f) = Some err"
    using that w3 by (simp add: splitBranch_def splitAudioFile_def fsp_readdir_def Let_def)
qed

text \<open>The run that measures more than 25 MB and fails before the loop.\<close>

lemma split_stage_fails:
  assumes "fetch env (url_private f) = Fetched n"
    and "\<not> isDir (fs w (tempFilePath f))"
    and "stat_fault env (tempFilePath f) = None"
    and "26214400 < n"
    and "splitBranch env f ch
          (emit (Stat (tempFilePath f))
            (put (tempFilePath f) (Some (File n))
              (emit (Download (url_private f) (tempFilePath f)) w))) = (Inl e, od, w1)"
    and "trace w1 = trace (emit (Stat (tempFilePath f))
            (put (tempFilePath f) (Some (File n))
              (emit (Download (url_private f) (tempFilePath f)) w))) @ calls"
    and "filter pipeline_call calls = calls"
  shows "fails_with env f ch w e
     (Download (url_private f) (tempFilePath f) # Stat (tempFilePath f) # calls)"
proof -
  have "processAudioFile_try env f ch w = (Inl e, od, w1)"
    using try_measured [OF assms(1-3), of ch] assms(4,5) by simp
  moreover have "new_calls w w1 =
      Download (url_private f) (tempFilePath f) # Stat (tempFilePath f) # calls"
    by (rule new_calls_app) (simp add: assms(6))
  ultimately show ?thesis
    using assms(7) by (intro run_fails) simp_all
qed


lemma mkdir_fails:
  assumes "fetch env (url_private f) = Fetched n"
    and "\<not> isDir (fs w (tempFilePath f))"
    and "stat_fault env (tempFilePath f) = None"
    and "26214400 < n"
    and "fst (fsp_mkdir env (segmentsDir f) w) = Inl e"
  shows "fails_with env f ch w e
     [Download (url_private f) (tempFilePath f), Stat (tempFilePath f), Mkdir (segmentsDir f)]"
proof -
  let ?wm = "emit (Stat (tempFilePath f))
            (put (tempFilePath f) (Some (File n))
              (emit (Download (url_private f) (tempFilePath f)) w))"
  have fsd: "fs ?wm (segmentsDir f) = fs w (segmentsDir f)"
    by simp
  have "mkdir_fault env (segmentsDir f) = Some e \<or>
      mkdir_fault env (segmentsDir f) = None \<and> isFile (fs w (segmentsDir f)) \<and> e = Error ''EEXIST''"
    using assms(5)
    by (auto simp add: fsp_mkdir_def Let_def split: option.splits node.splits)
  then have sb: "splitBranch env f ch ?wm =
      (Inl e, Some (segmentsDir f), emit (Mkdir (segmentsDir f)) ?wm)"
    using splitBranch_mkdir_fails [where env = env and f = f and ch = ch and w = ?wm] fsd by auto
  show ?thesis
    by (rule split_stage_fails [OF assms(1-4) sb]) simp_all
qed

lemma split_fails:
  assumes "fetch env (url_private f) = Fetched n"
    and "\<not> isDir (fs w (tempFilePath f))"
    and "stat_fault env (tempFilePath f) = None"
    and "26214400 < n"
    and "mkdir_fault env (segmentsDir f) = None"
    and "\<not> isFile (fs w (segmentsDir f))"
  shows "ffprobe env (tempFilePath f) = Some err \<Longrightarrow>
      fails_with env f ch w (Error (''FFprobe failed: '' @ message err))
        [Download (url_private f) (tempFilePath f), Stat (tempFilePath f),
         Mkdir (segmentsDir f), SplitAudioFile (tempFilePath f) (segmentsDir f),
         Ffprobe (tempFilePath f)]"
    and "ffprobe env (tempFilePath f) = None \<Longrightarrow>
      ffmpeg env (tempFilePath f) (segmentsDir f) = FfmpegError written err \<Longrightarrow>
      fails_with env f ch w (Error (''FFmpeg failed: '' @ message err))
        [Download (url_private f) (tempFilePath f), Stat (tempFilePath f),
         Mkdir (segmentsDir f), SplitAudioFile (tempFilePath f) (segmentsDir f),
         Ffprobe (tempFilePath f),
         Ffmpeg (tempFilePath f) (path_join (segmentsDir f) ''segment_%03d.mp3'')]"
    and "ffprobe env (tempFilePath f) = None \<Longrightarrow>
      ffmpeg env (tempFilePath f) (segmentsDir f) = FfmpegEnd written \<Longrightarrow>
      readdir_fault env (segmentsDir f) = Some err \<Longrightarrow>
      fails_with env f ch w (Error (''Failed to read output directory: '' @ message err))
        [Download (url_private f) (tempFilePath f), Stat (tempFilePath f),
         Mkdir (segmentsDir f), SplitAudioFile (tempFilePath f) (segmentsDir f),
         Ffprobe (tempFilePath f),
         Ffmpeg (tempFilePath f) (path_join (segmentsDir f) ''segment_%03d.mp3''),
         Readdir (segmentsDir f)]"
proof -
  let ?wm = "emit (Stat (tempFilePath f))
            (put (tempFilePath f) (Some (File n))
              (emit (Download (url_private f) (tempFilePath f)) w))"
  have nf: "\<not> isFile (fs ?wm (segmentsDir f))"
    using assms(6) by simp
  note sb = splitBranch_split_fails [OF assms(5) nf, where ch = ch]
  show "fails_with env f ch w (Error (''FFprobe failed: '' @ message err))
        [Download (url_private f) (tempFilePath f), Stat (tempFilePath f),
         Mkdir (segmentsDir f), SplitAudioFile (tempFilePath f) (segmentsDir f),
         Ffprobe (tempFilePath f)]"
    if "ffprobe env (tempFilePath f) = Some err"
  proof -
    from sb(1) [OF that] obtain w1 where
      "splitBranch env f ch ?wm =
        (Inl (Error (''FFprobe failed: '' @ message err)), Some (segmentsDir f), w1)"
      "trace w1 = trace ?wm @ [Mkdir (segmentsDir f),
          SplitAudioFile (tempFilePath f) (segmentsDir f), Ffprobe (tempFilePath f)]"
      by blast
    then show ?thesis
      using assms(1-4) by (intro split_stage_fails) simp_all
  qed
  show "fails_with env f ch w (Error (''FFmpeg failed: '' @ message err))
        [Download (url_private f) (tempFilePath f), Stat (tempFilePath f),
         Mkdir (segmentsDir f), SplitAudioFile (tempFilePath f) (segmentsDir f),
         Ffprobe (tempFilePath f),
         Ffmpeg (tempFilePath f) (path_join (segmentsDir f) ''segment_%03d.mp3'')]"
    if "ffprobe env (tempFilePath f) = None"
      "ffmpeg env (tempFilePath f) (segmentsDir f) = FfmpegError written err"
  proof -
    from sb(2) [OF that] obtain w1 where
      "splitBranch env f ch ?wm =
        (Inl (Error (''FFmpeg failed: '' @ message err)), Some (segmentsDir f), w1)"
      "trace w1 = trace ?wm @ [Mkdir (segmentsDir f),
          SplitAudioFile (tempFilePath f) (segmentsDir f), Ffprobe (tempFilePath f),
          Ffmpeg (tempFilePath f) (path_join (segmentsDir f) ''segment_%03d.mp3'')]"
      by blast
    then show ?thesis
      using assms(1-4) by (intro split_stage_fails) simp_all
  qed
  show "fails_with env f ch w (Error (''Failed to read output directory: '' @ message err))
        [Download (url_private f) (tempFilePath f), Stat (tempFilePath f),
         Mkdir (segmentsDir f), SplitAudioFile (tempFilePath f) (segmentsDir f),
         Ffprobe (tempFilePath f),
         Ffmpeg (tempFilePath f) (path_join (segmentsDir f) ''segment_%03d.mp3''),
         Readdir (segmentsDir f)]"
    if "ffprobe env (tempFilePath f) = None"
      "ffmpeg env (tempFilePath f) (segmentsDir f) = FfmpegEnd written"
      "readdir_fault env (segmentsDir f) = Some err"
  proof -
    from sb(3) [OF that] obtain w1 where
      "splitBranch env f ch ?wm =
        (Inl (Error (''Failed to read output directory: '' @ message err)),
         Some (segmentsDir f), w1)"
      "trace w1 = trace ?wm @ [Mkdir (segmentsDir f),
          SplitAudioFile (tempFilePath f) (segmentsDir f), Ffprobe (tempFilePath f),
          Ffmpeg (tempFilePath f) (path_join (segmentsDir f) ''segment_%03d.mp3''),
          Readdir (segmentsDir f)]"
      by blast
    then show ?thesis
      using assms(1-4) by (intro split_stage_fails) simp_all
  qed
qed

lemma segment_fails:
  assumes "fetch env (url_private f) = Fetched n"
    and "\<not> isDir (fs w (tempFilePath f))"
    and "stat_fault env (tempFilePath f) = None"
    and "26214400 < n"
    and "mkdir_fault env (segmentsDir f) = None"
    and "\<not> isFile (fs w (segmentsDir f))"
    and "ffprobe env (tempFilePath f) = None"
    and "ffmpeg env (tempFilePath f) (segmentsDir f) = FfmpegEnd written"
    and "readdir_fault env (segmentsDir f) = None"
    and "segment_files (listing_after (entries_of (fs w (segmentsDir f))) written) = pre @ s # post"
    and "\<forall>x\<in>set pre. \<not> isl (transcribe env (path_join (segmentsDir f) x))"
    and "transcribe env (path_join (segmentsDir f) s) = Inl e"
  shows "fails_with env f ch w e
     ([Download (url_private f) (tempFilePath f), Stat (tempFilePath f),
       Mkdir (segmentsDir f), SplitAudioFile (tempFilePath f) (segmentsDir f),
       Ffprobe (tempFilePath f),
       Ffmpeg (tempFilePath f) (path_join (segmentsDir f) ''segment_%03d.mp3''),
       Readdir (segmentsDir f)]
      @ map (\<lambda>x. Transcribe (path_join (segmentsDir f) x)) (pre @ [s]))"
proof -
  from split_run_fail [OF assms, of ch] obtain w1 where
    "processAudioFile_try env f ch w = (Inl e, Some (segmentsDir f), w1)"
    "new_calls w w1 =
        [Download (url_private f) (tempFilePath f), Stat (tempFilePath f),
         Mkdir (segmentsDir f), SplitAudioFile (tempFilePath f) (segmentsDir f),
         Ffprobe (tempFilePath f),
         Ffmpeg (tempFilePath f) (path_join (segmentsDir f) ''segment_%03d.mp3''),
         Readdir (segmentsDir f)]
        @ map (\<lambda>x. Transcribe (path_join (segmentsDir f) x)) (pre @ [s])"
    by blast
  then show ?thesis
    by (rule run_fails) simp
qed

lemma split_post_fails:
  assumes "fetch env (url_private f) = Fetched n"
    and "\<not> isDir (fs w (tempFilePath f))"
    and "stat_fault env (tempFilePath f) = None"
    and "26214400 < n"
    and "mkdir_fault env (segmentsDir f) = None"
    and "\<not> isFile (fs w (segmentsDir f))"
    and "ffprobe env (tempFilePath f) = None"
    and "ffmpeg env (tempFilePath f) (segmentsDir f) = FfmpegEnd written"
    and "readdir_fault env (segmentsDir f) = None"
    and "segs = segment_files (listing_after (entries_of (fs w (segmentsDir f))) written)"
    and "\<forall>x\<in>set segs. \<not> isl (transcribe env (path_join (segmentsDir f) x))"
    and "text = concat (map (\<lambda>x. heard_text env (path_join (segmentsDir f) x) @ '' '') segs)"
    and "postMessage env ch (result_text (file_name f) text) = Some e"
  shows "fails_with env f ch w e
     ([Download (url_private f) (tempFilePath f), Stat (tempFilePath f),
       Mkdir (segmentsDir f), SplitAudioFile (tempFilePath f) (segmentsDir f),
       Ffprobe (tempFilePath f),
       Ffmpeg (tempFilePath f) (path_join (segmentsDir f) ''segment_%03d.mp3''),
       Readdir (segmentsDir f)]
      @ map (\<lambda>x. Transcribe (path_join (segmentsDir f) x)) segs
      @ [PostMessage ch (result_text (file_name f) text)])"
proof -
  from split_run_ok [OF assms(1-12), of ch] assms(13) obtain w1 where
    "processAudioFile_try env f ch w = (Inl e, Some (segmentsDir f), w1)"
    "new_calls w w1 =
        [Download (url_private f) (tempFilePath f), Stat (tempFilePath f),
         Mkdir (segmentsDir f), SplitAudioFile (tempFilePath f) (segmentsDir f),
         Ffprobe (tempFilePath f),
         Ffmpeg (tempFilePath f) (path_join (segmentsDir f) ''segment_%03d.mp3''),
         Readdir (segmentsDir f)]
        @ map (\<lambda>x. Transcribe (path_join (segmentsDir f) x)) segs
        @ [PostMessage ch (result_text (file_name f) text)]"
    by auto
  then show ?thesis
    by (rule run_fails) simp
qed

section \<open>The properties of the specification\<close>




text \<open>
  C5. The size test is a strict comparison with 26,214,400 bytes: once the download and the
  size measurement have succeeded with \<open>n\<close> bytes, the run continues with the split branch
  if \<open>n > 26214400\<close> and with the direct transcription otherwise, so also at exactly
  26,214,400 bytes.
\<close>

theorem size_threshold_strict:
  assumes "fetch env (url_private file) = Fetched n"
    and "\<not> isDir (fs w (tempFilePath file))"
    and "stat_fault env (tempFilePath file) = None"
  shows "(25 < fileSizeInMegabytes n) = (26214400 < n)
    \<and> processAudioFile_try env file ch w =
       (if 26214400 < n
        then splitBranch env file ch
          (emit (Stat (tempFilePath file))
            (put (tempFilePath file) (Some (File n))
              (emit (Download (url_private file) (tempFilePath file)) w)))
        else directBranch env file ch
          (emit (Stat (tempFilePath file))
            (put (tempFilePath file) (Some (File n))
              (emit (Download (url_private file) (tempFilePath file)) w))))"
  using try_measured [OF assms] size_test by simp

theorem size_threshold_strict_witness:
  "fetch (env_ok 26214400 [] (always (Inr ''hello''))) (url_private file1) = Fetched 26214400
   \<and> \<not> isDir (fs world0 (tempFilePath file1))
   \<and> stat_fault (env_ok 26214400 [] (always (Inr ''hello''))) (tempFilePath file1) = None
   \<and> \<not> 25 < fileSizeInMegabytes 26214400
   \<and> processAudioFile_try (env_ok 26214400 [] (always (Inr ''hello''))) file1 ''C9'' world0 =
       directBranch (env_ok 26214400 [] (always (Inr ''hello''))) file1 ''C9''
         (emit (Stat (tempFilePath file1))
           (put (tempFilePath file1) (Some (File 26214400))
             (emit (Download (url_private file1) (tempFilePath file1)) world0)))"
  using size_threshold_strict
    [of "env_ok 26214400 [] (always (Inr ''hello''))" file1 26214400 world0 "''C9''"]
  by (simp add: example_defs)



text \<open>
  C8. A run that measures at most 26,214,400 bytes calls the transcription service exactly
  once, on the downloaded file, and never splits; the text it posts is that call's text,
  unchanged, after the fixed heading with the file name.
\<close>

theorem direct_path_one_transcription:
  assumes "fetch env (url_private f) = Fetched n"
    and "\<not> isDir (fs w (tempFilePath f))"
    and "stat_fault env (tempFilePath f) = None"
    and "n \<le> 26214400"
  shows "filter is_Transcribe (new_calls w (snd (processAudioFile env f ch w))) =
       [Transcribe (tempFilePath f)]
   \<and> filter is_SplitAudioFile (new_calls w (snd (processAudioFile env f ch w))) = []
   \<and> (transcribe env (tempFilePath f) = Inr t \<longrightarrow>
        filter is_PostMessage (new_calls w (snd (processAudioFile env f ch w))) =
          [PostMessage ch (result_text (file_name f) t)])
   \<and> (transcribe env (tempFilePath f) = Inr t
        \<and> postMessage env ch (result_text (file_name f) t) = None \<longrightarrow>
        fst (processAudioFile env f ch w) = Inr ())"
proof -
  from direct_run [OF assms, of ch] obtain w1 where
    tr: "processAudioFile_try env f ch w =
       ((case transcribe env (tempFilePath f) of
           Inl e \<Rightarrow> Inl e
         | Inr t \<Rightarrow> (case postMessage env ch (result_text (file_name f) t) of
                      Some e \<Rightarrow> Inl e | None \<Rightarrow> Inr ())), None, w1)"
    and calls: "new_calls w w1 =
        [Download (url_private f) (tempFilePath f), Stat (tempFilePath f),
         Transcribe (tempFilePath f)]
        @ (case transcribe env (tempFilePath f) of
             Inl e \<Rightarrow> []
           | Inr t \<Rightarrow> [PostMessage ch (result_text (file_name f) t)])"
    by blast
  have "filter is_Transcribe (new_calls w (snd (processAudioFile env f ch w))) =
       [Transcribe (tempFilePath f)]"
    using run_filter [OF tr kinds_pipeline(1)] calls by (simp split: sum.split)
  moreover have "filter is_SplitAudioFile (new_calls w (snd (processAudioFile env f ch w))) = []"
    using run_filter [OF tr kinds_pipeline(3)] calls by (simp split: sum.split)
  moreover have "filter is_PostMessage (new_calls w (snd (processAudioFile env f ch w))) =
          [PostMessage ch (result_text (file_name f) t)]"
    if "transcribe env (tempFilePath f) = Inr t"
    using run_filter [OF tr kinds_pipeline(2)] calls that by simp
  moreover have "fst (processAudioFile env f ch w) = Inr ()"
    if "transcribe env (tempFilePath f) = Inr t \<and>
      postMessage env ch (result_text (file_name f) t) = None"
    using that by (simp add: run_fst tr)
  ultimately show ?thesis by blast
qed

theorem direct_path_one_transcription_witness:
  "filter is_Transcribe (new_calls world0 (snd (processAudioFile
       (env_ok 26214400 [] (always (Inr ''hello''))) file1 ''C9'' world0))) =
     [Transcribe ''/tmp/F1.mp3'']
   \<and> filter is_SplitAudioFile (new_calls world0 (snd (processAudioFile
       (env_ok 26214400 [] (always (Inr ''hello''))) file1 ''C9'' world0))) = []
   \<and> filter is_PostMessage (new_calls world0 (snd (processAudioFile
       (env_ok 26214400 [] (always (Inr ''hello''))) file1 ''C9'' world0))) =
     [PostMessage ''C9'' (result_text ''talk.mp3'' ''hello'')]
   \<and> fst (processAudioFile (env_ok 26214400 [] (always (Inr ''hello''))) file1 ''C9'' world0) =
     Inr ()"
  using direct_path_one_transcription
    [where env = "env_ok 26214400 [] (always (Inr ''hello''))" and f = file1
       and n = 26214400 and w = world0 and t = "''hello''" and ch = "''C9''"]
  by (simp add: example_defs tempFilePath_def)

text \<open>
  C7. When the probe, the FFmpeg run and the listing succeed, \<open>splitAudioFile\<close> returns the
  listing of the output directory, filtered to the names that start with \<^verbatim>\<open>segment_\<close>
  and sorted. The result is the same for every order in which FFmpeg wrote the files and
  for every order in which the directory lists its entries.
\<close>

theorem split_returns_sorted_listing:
  assumes "ffprobe env i = None"
    and "ffmpeg env i d = FfmpegEnd written"
    and "readdir_fault env d = None"
    and "fs w d = Some (Dir es)"
  shows "fst (splitAudioFile env i d w) =
       Inr (sort (filter (\<lambda>file. startsWith file ''segment_'')
                   (entries_of (fs (snd (splitAudioFile env i d w)) d))))
   \<and> (ffprobe env' i = None \<and> ffmpeg env' i d = FfmpegEnd written'
        \<and> readdir_fault env' d = None \<and> fs w' d = Some (Dir es')
        \<and> mset es' = mset es \<and> mset written' = mset written
        \<longrightarrow> fst (splitAudioFile env' i d w') = fst (splitAudioFile env i d w))"
proof (intro conjI impI)
  from splitAudioFile_ok [OF assms] obtain w1 where
    w1: "splitAudioFile env i d w = (Inr (segment_files (listing_after es written)), w1)"
      "fs w1 = (fs w)(d := Some (Dir (listing_after es written)))"
    by blast
  then show "fst (splitAudioFile env i d w) =
       Inr (sort (filter (\<lambda>file. startsWith file ''segment_'')
                   (entries_of (fs (snd (splitAudioFile env i d w)) d))))"
    by (simp add: segment_files_def)
  assume a: "ffprobe env' i = None \<and> ffmpeg env' i d = FfmpegEnd written'
        \<and> readdir_fault env' d = None \<and> fs w' d = Some (Dir es')
        \<and> mset es' = mset es \<and> mset written' = mset written"
  then have "\<exists>w2. splitAudioFile env' i d w' = (Inr (segment_files (listing_after es' written')), w2)"
    using splitAudioFile_ok [of env' i d written' w' es'] by blast
  moreover have "segment_files (listing_after es' written') = segment_files (listing_after es written)"
    using a by (intro segment_files_perm listing_after_perm) simp_all
  ultimately show "fst (splitAudioFile env' i d w') = fst (splitAudioFile env i d w)"
    using w1(1) by auto
qed

theorem split_returns_sorted_listing_witness:
  "fst (splitAudioFile
         (env_ok 0 [''segment_001.mp3'', ''segment_000.mp3''] (always (Inr ''hello'')))
         ''/tmp/F1.mp3'' ''/tmp/F1_segments''
         (put ''/tmp/F1_segments'' (Some (Dir [''notes.txt''])) world0)) =
     Inr [''segment_000.mp3'', ''segment_001.mp3'']
   \<and> fst (splitAudioFile
         (env_ok 0 [''segment_000.mp3'', ''segment_001.mp3''] (always (Inr ''hello'')))
         ''/tmp/F1.mp3'' ''/tmp/F1_segments''
         (put ''/tmp/F1_segments'' (Some (Dir [''notes.txt''])) world0)) =
     fst (splitAudioFile
         (env_ok 0 [''segment_001.mp3'', ''segment_000.mp3''] (always (Inr ''hello'')))
         ''/tmp/F1.mp3'' ''/tmp/F1_segments''
         (put ''/tmp/F1_segments'' (Some (Dir [''notes.txt''])) world0))"
proof -
  let ?w = "put ''/tmp/F1_segments'' (Some (Dir [''notes.txt''])) world0"
  let ?env = "env_ok 0 [''segment_001.mp3'', ''segment_000.mp3''] (always (Inr ''hello''))"
  let ?env' = "env_ok 0 [''segment_000.mp3'', ''segment_001.mp3''] (always (Inr ''hello''))"
  have h: "ffprobe ?env ''/tmp/F1.mp3'' = None"
    "ffmpeg ?env ''/tmp/F1.mp3'' ''/tmp/F1_segments'' =
       FfmpegEnd [''segment_001.mp3'', ''segment_000.mp3'']"
    "readdir_fault ?env ''/tmp/F1_segments'' = None"
    "fs ?w ''/tmp/F1_segments'' = Some (Dir [''notes.txt''])"
    by (simp_all add: example_defs)
  have h': "ffprobe ?env' ''/tmp/F1.mp3'' = None \<and>
    ffmpeg ?env' ''/tmp/F1.mp3'' ''/tmp/F1_segments'' =
       FfmpegEnd [''segment_000.mp3'', ''segment_001.mp3''] \<and>
    readdir_fault ?env' ''/tmp/F1_segments'' = None \<and>
    fs ?w ''/tmp/F1_segments'' = Some (Dir [''notes.txt'']) \<and>
    mset [''notes.txt''] = mset [''notes.txt''] \<and>
    mset [''segment_000.mp3'', ''segment_001.mp3''] =
      mset [''segment_001.mp3'', ''segment_000.mp3'']"
    by (simp add: example_defs)
  have e: "entries_of (fs (snd (splitAudioFile ?env ''/tmp/F1.mp3'' ''/tmp/F1_segments'' ?w))
       ''/tmp/F1_segments'') = [''notes.txt'', ''segment_001.mp3'', ''segment_000.mp3'']"
    by (simp add: run_defs example_defs)
  have s: "sort (filter (\<lambda>file. startsWith file ''segment_'')
       [''notes.txt'', ''segment_001.mp3'', ''segment_000.mp3'']) =
       [''segment_000.mp3'', ''segment_001.mp3'']"
    by (simp add: startsWith_def)
  from split_returns_sorted_listing [OF h,
      where env' = ?env' and w' = ?w and es' = "[''notes.txt'']"
        and written' = "[''segment_000.mp3'', ''segment_001.mp3'']"] h'
  show ?thesis
    unfolding e s by blast
qed


text \<open>
  C3, as the code has it. There is no check on the number of segments: when the split
  succeeds with no segment, the loop makes no transcription call and the run posts an
  empty transcript; it completes normally if that post succeeds.
\<close>

theorem zero_segments_posts_empty_transcript:
  assumes "fetch env (url_private f) = Fetched n"
    and "\<not> isDir (fs w (tempFilePath f))"
    and "stat_fault env (tempFilePath f) = None"
    and "26214400 < n"
    and "mkdir_fault env (segmentsDir f) = None"
    and "\<not> isFile (fs w (segmentsDir f))"
    and "ffprobe env (tempFilePath f) = None"
    and "ffmpeg env (tempFilePath f) (segmentsDir f) = FfmpegEnd written"
    and "readdir_fault env (segmentsDir f) = None"
    and "segment_files (listing_after (entries_of (fs w (segmentsDir f))) written) = []"
  shows "filter is_Transcribe (new_calls w (snd (processAudioFile env f ch w))) = []
   \<and> filter is_PostMessage (new_calls w (snd (processAudioFile env f ch w))) =
       [PostMessage ch (result_text (file_name f) [])]
   \<and> fst (processAudioFile env f ch w) =
       (case postMessage env ch (result_text (file_name f) []) of
          Some e \<Rightarrow> Inl e | None \<Rightarrow> Inr ())"
proof -
  from split_run_ok [OF assms(1-9) assms(10) [symmetric], of "[]" ch]
  obtain w1 where
    tr: "processAudioFile_try env f ch w =
       ((case postMessage env ch (result_text (file_name f) []) of
           Some e \<Rightarrow> Inl e | None \<Rightarrow> Inr ()), Some (segmentsDir f), w1)"
    and calls: "new_calls w w1 =
        [Download (url_private f) (tempFilePath f), Stat (tempFilePath f),
         Mkdir (segmentsDir f), SplitAudioFile (tempFilePath f) (segmentsDir f),
         Ffprobe (tempFilePath f),
         Ffmpeg (tempFilePath f) (path_join (segmentsDir f) ''segment_%03d.mp3''),
         Readdir (segmentsDir f)]
        @ map (\<lambda>s. Transcribe (path_join (segmentsDir f) s)) []
        @ [PostMessage ch (result_text (file_name f) [])]"
    by auto
  show ?thesis
    using run_filter [OF tr kinds_pipeline(1)] run_filter [OF tr kinds_pipeline(2)] calls
    by (simp add: run_fst tr)
qed

theorem zero_segments_posts_empty_transcript_witness:
  "filter is_Transcribe (new_calls world0 (snd (processAudioFile
       (env_ok 30000000 [] (always (Inr ''hello''))) file1 ''C9'' world0))) = []
   \<and> filter is_PostMessage (new_calls world0 (snd (processAudioFile
       (env_ok 30000000 [] (always (Inr ''hello''))) file1 ''C9'' world0))) =
     [PostMessage ''C9'' (result_text ''talk.mp3'' [])]
   \<and> fst (processAudioFile (env_ok 30000000 [] (always (Inr ''hello''))) file1 ''C9'' world0) =
     Inr ()"
  using zero_segments_posts_empty_transcript
    [where env = "env_ok 30000000 [] (always (Inr ''hello''))" and f = file1
       and n = 30000000 and w = world0 and written = "[]" and ch = "''C9''"]
  by (simp add: example_defs tempFilePath_def segmentsDir_def listing_after_def segment_files_def)

text \<open>
  C3 as stated fails: a 30 MB file for which FFmpeg produces no segment is not reported as
  a split error; the run returns normally, having posted the heading with an empty text.
\<close>

theorem zero_segments_counterexample:
  "fst (processAudioFile (env_ok 30000000 [] (always (Inr ''hello''))) file1 ''C9'' world0) =
     Inr ()
   \<and> fst (splitAudioFile (env_ok 30000000 [] (always (Inr ''hello''))) ''/tmp/F1.mp3''
        ''/tmp/F1_segments'' (put ''/tmp/F1_segments'' (Some (Dir [])) world0)) = Inr []
   \<and> filter is_PostMessage (new_calls world0 (snd (processAudioFile
        (env_ok 30000000 [] (always (Inr ''hello''))) file1 ''C9'' world0))) =
     [PostMessage ''C9'' (result_text ''talk.mp3'' [])]"
  by (simp add: run_defs example_defs)

text \<open>
  C4, as the code has it. A run that fails reports the error of the first operation that
  failed; that operation was called once, nothing was called twice, and nothing is
  called after it but the log and \<open>cleanupFiles\<close>. The error of the download, of the size
  measurement, of \<open>mkdir\<close>, of a transcription call and of the post reaches the caller as
  it was raised, with no stage name and no segment added. An error inside
  \<open>splitAudioFile\<close> reaches the caller as a new error, whose message is the original
  message after \<^verbatim>\<open>FFprobe failed: \<close>, \<^verbatim>\<open>FFmpeg failed: \<close> or
  \<^verbatim>\<open>Failed to read output directory: \<close>. When the transcription of a segment fails, the
  segments before it were transcribed once each, the failing one once, and the later ones
  not at all.
\<close>

theorem stage_errors_reach_caller:
  "(fst (downloadFile env (url_private f) (tempFilePath f) w) = Inl e \<longrightarrow>
      fails_with env f ch w e [Download (url_private f) (tempFilePath f)])
   \<and> (fetch env (url_private f) = Fetched n \<and> \<not> isDir (fs w (tempFilePath f)) \<longrightarrow>
      (stat_fault env (tempFilePath f) = Some e \<longrightarrow>
         fails_with env f ch w e
           [Download (url_private f) (tempFilePath f), Stat (tempFilePath f)])
    \<and> (stat_fault env (tempFilePath f) = None \<and> n \<le> 26214400 \<longrightarrow>
         (transcribe env (tempFilePath f) = Inl e \<longrightarrow>
            fails_with env f ch w e
              [Download (url_private f) (tempFilePath f), Stat (tempFilePath f),
               Transcribe (tempFilePath f)])
       \<and> (transcribe env (tempFilePath f) = Inr t
            \<and> postMessage env ch (result_text (file_name f) t) = Some e \<longrightarrow>
            fails_with env f ch w e
              [Download (url_private f) (tempFilePath f), Stat (tempFilePath f),
               Transcribe (tempFilePath f), PostMessage ch (result_text (file_name f) t)]))
    \<and> (stat_fault env (tempFilePath f) = None \<and> 26214400 < n \<longrightarrow>
         (fst (fsp_mkdir env (segmentsDir f) w) = Inl e \<longrightarrow>
            fails_with env f ch w e
              [Download (url_private f) (tempFilePath f), Stat (tempFilePath f),
               Mkdir (segmentsDir f)])
       \<and> (mkdir_fault env (segmentsDir f) = None \<and> \<not> isFile (fs w (segmentsDir f)) \<longrightarrow>
            (ffprobe env (tempFilePath f) = Some e \<longrightarrow>
               fails_with env f ch w (Error (''FFprobe failed: '' @ message e))
                 [Download (url_private f) (tempFilePath f), Stat (tempFilePath f),
                  Mkdir (segmentsDir f), SplitAudioFile (tempFilePath f) (segmentsDir f),
                  Ffprobe (tempFilePath f)])
          \<and> (ffprobe env (tempFilePath f) = None
               \<and> ffmpeg env (tempFilePath f) (segmentsDir f) = FfmpegError written e \<longrightarrow>
               fails_with env f ch w (Error (''FFmpeg failed: '' @ message e))
                 [Download (url_private f) (tempFilePath f), Stat (tempFilePath f),
                  Mkdir (segmentsDir f), SplitAudioFile (tempFilePath f) (segmentsDir f),
                  Ffprobe (tempFilePath f),
                  Ffmpeg (tempFilePath f) (path_join (segmentsDir f) ''segment_%03d.mp3'')])
          \<and> (ffprobe env (tempFilePath f) = None
               \<and> ffmpeg env (tempFilePath f) (segmentsDir f) = FfmpegEnd written \<longrightarrow>
               (readdir_fault env (segmentsDir f) = Some e \<longrightarrow>
                  fails_with env f ch w
                    (Error (''Failed to read output directory: '' @ message e))
                    [Download (url_private f) (tempFilePath f), Stat (tempFilePath f),
                     Mkdir (segmentsDir f), SplitAudioFile (tempFilePath f) (segmentsDir f),
                     Ffprobe (tempFilePath f),
                     Ffmpeg (tempFilePath f) (path_join (segmentsDir f) ''segment_%03d.mp3''),
                     Readdir (segmentsDir f)])
             \<and> (readdir_fault env (segmentsDir f) = None \<longrightarrow>
                  (segment_files (listing_after (entries_of (fs w (segmentsDir f))) written) =
                     pre @ s # post
                   \<and> (\<forall>x\<in>set pre. \<not> isl (transcribe env (path_join (segmentsDir f) x)))
                   \<and> transcribe env (path_join (segmentsDir f) s) = Inl e \<longrightarrow>
                   fails_with env f ch w e
                     ([Download (url_private f) (tempFilePath f), Stat (tempFilePath f),
                       Mkdir (segmentsDir f),
                       SplitAudioFile (tempFilePath f) (segmentsDir f),
                       Ffprobe (tempFilePath f),
                       Ffmpeg (tempFilePath f)
                         (path_join (segmentsDir f) ''segment_%03d.mp3''),
                       Readdir (segmentsDir f)]
                      @ map (\<lambda>x. Transcribe (path_join (segmentsDir f) x)) (pre @ [s])))
                \<and> (segs = segment_files
                              (listing_after (entries_of (fs w (segmentsDir f))) written)
                   \<and> (\<forall>x\<in>set segs. \<not> isl (transcribe env (path_join (segmentsDir f) x)))
                   \<and> transcript = concat (map (\<lambda>x. heard_text env (path_join (segmentsDir f) x)
                                               @ '' '') segs)
                   \<and> postMessage env ch (result_text (file_name f) transcript) = Some e \<longrightarrow>
                   fails_with env f ch w e
                     ([Download (url_private f) (tempFilePath f), Stat (tempFilePath f),
                       Mkdir (segmentsDir f),
                       SplitAudioFile (tempFilePath f) (segmentsDir f),
                       Ffprobe (tempFilePath f),
                       Ffmpeg (tempFilePath f)
                         (path_join (segmentsDir f) ''segment_%03d.mp3''),
                       Readdir (segmentsDir f)]
                      @ map (\<lambda>x. Transcribe (path_join (segmentsDir f) x)) segs
                      @ [PostMessage ch (result_text (file_name f) transcript)])))))))"
proof (intro conjI impI, goal_cases)
  case 1
  then show ?case by (rule download_fails)
next
  case 2
  then show ?case by (blast intro: stat_fails)
next
  case 3
  then show ?case by (blast intro: direct_fails(1))
next
  case 4
  then show ?case by (blast intro: direct_fails(2))
next
  case 5
  then show ?case by (blast intro: mkdir_fails)
next
  case 6
  then show ?case by (blast intro: split_fails(1))
next
  case 7
  then show ?case by (blast intro: split_fails(2))
next
  case 8
  then show ?case by (blast intro: split_fails(3))
next
  case 9
  then show ?case by (blast intro: segment_fails)
next
  case 10
  then show ?case by (blast intro: split_post_fails)
qed

theorem stage_errors_reach_caller_witness:
  "fails_with
      ((env_ok 100 [] (always (Inr ''hello'')))\<lparr>fetch := always (RequestFailed (Error ''403''))\<rparr>)
      file1 ''C9'' world0 (Error ''403'')
       [Download ''https://files/F1'' ''/tmp/F1.mp3'']
   \<and> fails_with
      ((env_ok 100 [] (always (Inr ''hello'')))\<lparr>stat_fault := always (Some (Error ''EIO''))\<rparr>)
      file1 ''C9'' world0 (Error ''EIO'')
       [Download ''https://files/F1'' ''/tmp/F1.mp3'',
        Stat ''/tmp/F1.mp3'']
   \<and> fails_with
      (env_ok 100 [] (always (Inl (Error ''boom''))))
      file1 ''C9'' world0 (Error ''boom'')
       [Download ''https://files/F1'' ''/tmp/F1.mp3'',
        Stat ''/tmp/F1.mp3'',
        Transcribe ''/tmp/F1.mp3'']
   \<and> fails_with
      ((env_ok 100 [] (always (Inr ''hello'')))\<lparr>postMessage := always (always (Some (Error ''channel_not_found'')))\<rparr>)
      file1 ''C9'' world0 (Error ''channel_not_found'')
       [Download ''https://files/F1'' ''/tmp/F1.mp3'',
        Stat ''/tmp/F1.mp3'',
        Transcribe ''/tmp/F1.mp3'',
        PostMessage ''C9'' (result_text ''talk.mp3'' ''hello'')]
   \<and> fails_with
      ((env_ok 30000000 [''segment_000.mp3''] (always (Inr ''hello'')))\<lparr>mkdir_fault := always (Some (Error ''EACCES''))\<rparr>)
      file1 ''C9'' world0 (Error ''EACCES'')
       [Download ''https://files/F1'' ''/tmp/F1.mp3'',
        Stat ''/tmp/F1.mp3'',
        Mkdir ''/tmp/F1_segments'']
   \<and> fails_with
      ((env_ok 30000000 [''segment_000.mp3''] (always (Inr ''hello'')))\<lparr>ffprobe := always (Some (Error ''moov atom not found''))\<rparr>)
      file1 ''C9'' world0 (Error ''FFprobe failed: moov atom not found'')
       [Download ''https://files/F1'' ''/tmp/F1.mp3'',
        Stat ''/tmp/F1.mp3'',
        Mkdir ''/tmp/F1_segments'',
        SplitAudioFile ''/tmp/F1.mp3'' ''/tmp/F1_segments'',
        Ffprobe ''/tmp/F1.mp3'']
   \<and> fails_with
      ((env_ok 30000000 [''segment_000.mp3''] (always (Inr ''hello'')))\<lparr>ffmpeg := always (always (FfmpegError [] (Error ''exit 1'')))\<rparr>)
      file1 ''C9'' world0 (Error ''FFmpeg failed: exit 1'')
       [Download ''https://files/F1'' ''/tmp/F1.mp3'',
        Stat ''/tmp/F1.mp3'',
        Mkdir ''/tmp/F1_segments'',
        SplitAudioFile ''/tmp/F1.mp3'' ''/tmp/F1_segments'',
        Ffprobe ''/tmp/F1.mp3'',
        Ffmpeg ''/tmp/F1.mp3'' ''/tmp/F1_segments/segment_%03d.mp3'']
   \<and> fails_with
      ((env_ok 30000000 [''segment_000.mp3''] (always (Inr ''hello'')))\<lparr>readdir_fault := always (Some (Error ''EIO''))\<rparr>)
      file1 ''C9'' world0 (Error ''Failed to read output directory: EIO'')
       [Download ''https://files/F1'' ''/tmp/F1.mp3'',
        Stat ''/tmp/F1.mp3'',
        Mkdir ''/tmp/F1_segments'',
        SplitAudioFile ''/tmp/F1.mp3'' ''/tmp/F1_segments'',
        Ffprobe ''/tmp/F1.mp3'',
        Ffmpeg ''/tmp/F1.mp3'' ''/tmp/F1_segments/segment_%03d.mp3'',
        Readdir ''/tmp/F1_segments'']
   \<and> fails_with
      (env_ok 30000000 [''segment_000.mp3'', ''segment_001.mp3'', ''segment_002.mp3'']
         (heard_table [(''/tmp/F1_segments/segment_000.mp3'', ''a'')] (Error ''boom'')))
      file1 ''C9'' world0 (Error ''boom'')
       [Download ''https://files/F1'' ''/tmp/F1.mp3'',
        Stat ''/tmp/F1.mp3'',
        Mkdir ''/tmp/F1_segments'',
        SplitAudioFile ''/tmp/F1.mp3'' ''/tmp/F1_segments'',
        Ffprobe ''/tmp/F1.mp3'',
        Ffmpeg ''/tmp/F1.mp3'' ''/tmp/F1_segments/segment_%03d.mp3'',
        Readdir ''/tmp/F1_segments'',
        Transcribe ''/tmp/F1_segments/segment_000.mp3'',
        Transcribe ''/tmp/F1_segments/segment_001.mp3'']
   \<and> fails_with
      ((env_ok 30000000 [''segment_000.mp3''] (always (Inr ''hello'')))\<lparr>postMessage := always (always (Some (Error ''channel_not_found'')))\<rparr>)
      file1 ''C9'' world0 (Error ''channel_not_found'')
       [Download ''https://files/F1'' ''/tmp/F1.mp3'',
        Stat ''/tmp/F1.mp3'',
        Mkdir ''/tmp/F1_segments'',
        SplitAudioFile ''/tmp/F1.mp3'' ''/tmp/F1_segments'',
        Ffprobe ''/tmp/F1.mp3'',
        Ffmpeg ''/tmp/F1.mp3'' ''/tmp/F1_segments/segment_%03d.mp3'',
        Readdir ''/tmp/F1_segments'',
        Transcribe ''/tmp/F1_segments/segment_000.mp3'',
        PostMessage ''C9'' (result_text ''talk.mp3'' ''hello '')]"
proof -
  have a: "fails_with
      ((env_ok 100 [] (always (Inr ''hello'')))\<lparr>fetch := always (RequestFailed (Error ''403''))\<rparr>)
      file1 ''C9'' world0 (Error ''403'')
       [Download ''https://files/F1'' ''/tmp/F1.mp3'']"
    using stage_errors_reach_caller
      [where env = "(env_ok 100 [] (always (Inr ''hello'')))\<lparr>fetch := always (RequestFailed (Error ''403''))\<rparr>"
        and f = file1 and ch = "''C9''" and w = world0 and e = "Error ''403''"]
    by (simp add: example_defs tempFilePath_def segmentsDir_def path_join_def downloadFile_def
        fsp_mkdir_def isDir_def isFile_def entries_of_def listing_after_def segment_files_def
        startsWith_def heard_text_def Let_def)
  have b: "fails_with
      ((env_ok 100 [] (always (Inr ''hello'')))\<lparr>stat_fault := always (Some (Error ''EIO''))\<rparr>)
      file1 ''C9'' world0 (Error ''EIO'')
       [Download ''https://files/F1'' ''/tmp/F1.mp3'',
        Stat ''/tmp/F1.mp3'']"
    using stage_errors_reach_caller
      [where env = "(env_ok 100 [] (always (Inr ''hello'')))\<lparr>stat_fault := always (Some (Error ''EIO''))\<rparr>"
        and f = file1 and ch = "''C9''" and w = world0 and e = "Error ''EIO''" and n = 100]
    by (simp add: example_defs tempFilePath_def segmentsDir_def path_join_def downloadFile_def
        fsp_mkdir_def isDir_def isFile_def entries_of_def listing_after_def segment_files_def
        startsWith_def heard_text_def Let_def)
  have c: "fails_with
      (env_ok 100 [] (always (Inl (Error ''boom''))))
      file1 ''C9'' world0 (Error ''boom'')
       [Download ''https://files/F1'' ''/tmp/F1.mp3'',
        Stat ''/tmp/F1.mp3'',
        Transcribe ''/tmp/F1.mp3'']"
    using stage_errors_reach_caller
      [where env = "(env_ok 100 [] (always (Inl (Error ''boom''))))"
        and f = file1 and ch = "''C9''" and w = world0 and e = "Error ''boom''" and n = 100]
    by (simp add: example_defs tempFilePath_def segmentsDir_def path_join_def downloadFile_def
        fsp_mkdir_def isDir_def isFile_def entries_of_def listing_after_def segment_files_def
        startsWith_def heard_text_def Let_def)
  have d: "fails_with
      ((env_ok 100 [] (always (Inr ''hello'')))\<lparr>postMessage := always (always (Some (Error ''channel_not_found'')))\<rparr>)
      file1 ''C9'' world0 (Error ''channel_not_found'')
       [Download ''https://files/F1'' ''/tmp/F1.mp3'',
        Stat ''/tmp/F1.mp3'',
        Transcribe ''/tmp/F1.mp3'',
        PostMessage ''C9'' (result_text ''talk.mp3'' ''hello'')]"
    using stage_errors_reach_caller
      [where env = "(env_ok 100 [] (always (Inr ''hello'')))\<lparr>postMessage := always (always (Some (Error ''channel_not_found'')))\<rparr>"
        and f = file1 and ch = "''C9''" and w = world0 and e = "Error ''channel_not_found''" and n = 100 and t = "''hello''"]
    by (simp add: example_defs tempFilePath_def segmentsDir_def path_join_def downloadFile_def
        fsp_mkdir_def isDir_def isFile_def entries_of_def listing_after_def segment_files_def
        startsWith_def heard_text_def Let_def)
  have e: "fails_with
      ((env_ok 30000000 [''segment_000.mp3''] (always (Inr ''hello'')))\<lparr>mkdir_fault := always (Some (Error ''EACCES''))\<rparr>)
      file1 ''C9'' world0 (Error ''EACCES'')
       [Download ''https://files/F1'' ''/tmp/F1.mp3'',
        Stat ''/tmp/F1.mp3'',
        Mkdir ''/tmp/F1_segments'']"
    using stage_errors_reach_caller
      [where env = "(env_ok 30000000 [''segment_000.mp3''] (always (Inr ''hello'')))\<lparr>mkdir_fault := always (Some (Error ''EACCES''))\<rparr>"
        and f = file1 and ch = "''C9''" and w = world0 and e = "Error ''EACCES''" and n = 30000000]
    by (simp add: example_defs tempFilePath_def segmentsDir_def path_join_def downloadFile_def
        fsp_mkdir_def isDir_def isFile_def entries_of_def listing_after_def segment_files_def
        startsWith_def heard_text_def Let_def)
  have f: "fails_with
      ((env_ok 30000000 [''segment_000.mp3''] (always (Inr ''hello'')))\<lparr>ffprobe := always (Some (Error ''moov atom not found''))\<rparr>)
      file1 ''C9'' world0 (Error ''FFprobe failed: moov atom not found'')
       [Download ''https://files/F1'' ''/tmp/F1.mp3'',
        Stat ''/tmp/F1.mp3'',
        Mkdir ''/tmp/F1_segments'',
        SplitAudioFile ''/tmp/F1.mp3'' ''/tmp/F1_segments'',
        Ffprobe ''/tmp/F1.mp3'']"
    using stage_errors_reach_caller
      [where env = "(env_ok 30000000 [''segment_000.mp3''] (always (Inr ''hello'')))\<lparr>ffprobe := always (Some (Error ''moov atom not found''))\<rparr>"
        and f = file1 and ch = "''C9''" and w = world0 and e = "Error ''moov atom not found''" and n = 30000000]
    by (simp add: example_defs tempFilePath_def segmentsDir_def path_join_def downloadFile_def
        fsp_mkdir_def isDir_def isFile_def entries_of_def listing_after_def segment_files_def
        startsWith_def heard_text_def Let_def)
  have g: "fails_with
      ((env_ok 30000000 [''segment_000.mp3''] (always (Inr ''hello'')))\<lparr>ffmpeg := always (always (FfmpegError [] (Error ''exit 1'')))\<rparr>)
      file1 ''C9'' world0 (Error ''FFmpeg failed: exit 1'')
       [Download ''https://files/F1'' ''/tmp/F1.mp3'',
        Stat ''/tmp/F1.mp3'',
        Mkdir ''/tmp/F1_segments'',
        SplitAudioFile ''/tmp/F1.mp3'' ''/tmp/F1_segments'',
        Ffprobe ''/tmp/F1.mp3'',
        Ffmpeg ''/tmp/F1.mp3'' ''/tmp/F1_segments/segment_%03d.mp3'']"
    using stage_errors_reach_caller
      [where env = "(env_ok 30000000 [''segment_000.mp3''] (always (Inr ''hello'')))\<lparr>ffmpeg := always (always (FfmpegError [] (Error ''exit 1'')))\<rparr>"
        and f = file1 and ch = "''C9''" and w = world0 and e = "Error ''exit 1''" and n = 30000000 and written = "[]"]
    by (simp add: example_defs tempFilePath_def segmentsDir_def path_join_def downloadFile_def
        fsp_mkdir_def isDir_def isFile_def entries_of_def listing_after_def segment_files_def
        startsWith_def heard_text_def Let_def)
  have h: "fails_with
      ((env_ok 30000000 [''segment_000.mp3''] (always (Inr ''hello'')))\<lparr>readdir_fault := always (Some (Error ''EIO''))\<rparr>)
      file1 ''C9'' world0 (Error ''Failed to read output directory: EIO'')
       [Download ''https://files/F1'' ''/tmp/F1.mp3'',
        Stat ''/tmp/F1.mp3'',
        Mkdir ''/tmp/F1_segments'',
        SplitAudioFile ''/tmp/F1.mp3'' ''/tmp/F1_segments'',
        Ffprobe ''/tmp/F1.mp3'',
        Ffmpeg ''/tmp/F1.mp3'' ''/tmp/F1_segments/segment_%03d.mp3'',
        Readdir ''/tmp/F1_segments'']"
    using stage_errors_reach_caller
      [where env = "(env_ok 30000000 [''segment_000.mp3''] (always (Inr ''hello'')))\<lparr>readdir_fault := always (Some (Error ''EIO''))\<rparr>"
        and f = file1 and ch = "''C9''" and w = world0 and e = "Error ''EIO''" and n = 30000000 and written = "[''segment_000.mp3'']"]
    by (simp add: example_defs tempFilePath_def segmentsDir_def path_join_def downloadFile_def
        fsp_mkdir_def isDir_def isFile_def entries_of_def listing_after_def segment_files_def
        startsWith_def heard_text_def Let_def)
  have i: "fails_with
      (env_ok 30000000 [''segment_000.mp3'', ''segment_001.mp3'', ''segment_002.mp3'']
         (heard_table [(''/tmp/F1_segments/segment_000.mp3'', ''a'')] (Error ''boom'')))
      file1 ''C9'' world0 (Error ''boom'')
       [Download ''https://files/F1'' ''/tmp/F1.mp3'',
        Stat ''/tmp/F1.mp3'',
        Mkdir ''/tmp/F1_segments'',
        SplitAudioFile ''/tmp/F1.mp3'' ''/tmp/F1_segments'',
        Ffprobe ''/tmp/F1.mp3'',
        Ffmpeg ''/tmp/F1.mp3'' ''/tmp/F1_segments/segment_%03d.mp3'',
        Readdir ''/tmp/F1_segments'',
        Transcribe ''/tmp/F1_segments/segment_000.mp3'',
        Transcribe ''/tmp/F1_segments/segment_001.mp3'']"
    using stage_errors_reach_caller
      [where env = "(env_ok 30000000 [''segment_000.mp3'', ''segment_001.mp3'', ''segment_002.mp3'']
         (heard_table [(''/tmp/F1_segments/segment_000.mp3'', ''a'')] (Error ''boom'')))"
        and f = file1 and ch = "''C9''" and w = world0 and e = "Error ''boom''" and n = 30000000
        and written = "[''segment_000.mp3'', ''segment_001.mp3'', ''segment_002.mp3'']"
        and pre = "[''segment_000.mp3'']" and s = "''segment_001.mp3''" and post = "[''segment_002.mp3'']"]
    by (simp add: example_defs tempFilePath_def segmentsDir_def path_join_def downloadFile_def
        fsp_mkdir_def isDir_def isFile_def entries_of_def listing_after_def segment_files_def
        startsWith_def heard_text_def Let_def)
  have j: "fails_with
      ((env_ok 30000000 [''segment_000.mp3''] (always (Inr ''hello'')))\<lparr>postMessage := always (always (Some (Error ''channel_not_found'')))\<rparr>)
      file1 ''C9'' world0 (Error ''channel_not_found'')
       [Download ''https://files/F1'' ''/tmp/F1.mp3'',
        Stat ''/tmp/F1.mp3'',
        Mkdir ''/tmp/F1_segments'',
        SplitAudioFile ''/tmp/F1.mp3'' ''/tmp/F1_segments'',
        Ffprobe ''/tmp/F1.mp3'',
        Ffmpeg ''/tmp/F1.mp3'' ''/tmp/F1_segments/segment_%03d.mp3'',
        Readdir ''/tmp/F1_segments'',
        Transcribe ''/tmp/F1_segments/segment_000.mp3'',
        PostMessage ''C9'' (result_text ''talk.mp3'' ''hello '')]"
    using stage_errors_reach_caller
      [where env = "(env_ok 30000000 [''segment_000.mp3''] (always (Inr ''hello'')))\<lparr>postMessage := always (always (Some (Error ''channel_not_found'')))\<rparr>"
        and f = file1 and ch = "''C9''" and w = world0 and e = "Error ''channel_not_found''" and n = 30000000 and written = "[''segment_000.mp3'']"
        and segs = "[''segment_000.mp3'']" and transcript = "''hello ''"]
    by (simp add: example_defs tempFilePath_def segmentsDir_def path_join_def downloadFile_def
        fsp_mkdir_def isDir_def isFile_def entries_of_def listing_after_def segment_files_def
        startsWith_def heard_text_def Let_def)
  from a b c d e f g h i j show ?thesis
    by blast
qed

text \<open>
  C4 as stated fails: the error that reaches the caller carries no stage name and no
  segment. Two runs in which the service fails with the same error, on the first segment
  in one and on the second segment in the other, report the same error.
\<close>

theorem untagged_error_counterexample:
  "fst (processAudioFile
      (env_ok 30000000 [''segment_000.mp3'', ''segment_001.mp3'']
         (heard_table [] (Error ''boom'')))
      file1 ''C9'' world0) = Inl (Error ''boom'')
   \<and> filter is_Transcribe (new_calls world0 (snd (processAudioFile
      (env_ok 30000000 [''segment_000.mp3'', ''segment_001.mp3'']
         (heard_table [] (Error ''boom'')))
      file1 ''C9'' world0))) =
     [Transcribe ''/tmp/F1_segments/segment_000.mp3'']
   \<and> fst (processAudioFile
      (env_ok 30000000 [''segment_000.mp3'', ''segment_001.mp3'']
         (heard_table [(''/tmp/F1_segments/segment_000.mp3'', ''a'')] (Error ''boom'')))
      file1 ''C9'' world0) = Inl (Error ''boom'')
   \<and> filter is_Transcribe (new_calls world0 (snd (processAudioFile
      (env_ok 30000000 [''segment_000.mp3'', ''segment_001.mp3'']
         (heard_table [(''/tmp/F1_segments/segment_000.mp3'', ''a'')] (Error ''boom'')))
      file1 ''C9'' world0))) =
     [Transcribe ''/tmp/F1_segments/segment_000.mp3'',
      Transcribe ''/tmp/F1_segments/segment_001.mp3'']"
  by (simp add: run_defs example_defs)

text \<open>
  C2, as the code has it. In a run that measures more than 26,214,400 bytes and in which
  no stage fails, \<open>splitAudioFile\<close> is called once, the service is called once for each
  returned segment, in the order of the returned list, and the posted transcript is the
  concatenation of the segment texts, each followed by one space. The returned list is
  sorted by name, whatever the order in which FFmpeg wrote the files; for up to 1000
  files named by the pattern, in an output directory that was not there before, that is
  the ascending order of their numbers.
\<close>

theorem split_path_transcript:
  assumes "fetch env (url_private f) = Fetched n"
    and "\<not> isDir (fs w (tempFilePath f))"
    and "stat_fault env (tempFilePath f) = None"
    and "26214400 < n"
    and "mkdir_fault env (segmentsDir f) = None"
    and "\<not> isFile (fs w (segmentsDir f))"
    and "ffprobe env (tempFilePath f) = None"
    and "ffmpeg env (tempFilePath f) (segmentsDir f) = FfmpegEnd written"
    and "readdir_fault env (segmentsDir f) = None"
    and "segs = segment_files (listing_after (entries_of (fs w (segmentsDir f))) written)"
    and "\<forall>s\<in>set segs. \<not> isl (transcribe env (path_join (segmentsDir f) s))"
  shows "filter is_SplitAudioFile (new_calls w (snd (processAudioFile env f ch w))) =
       [SplitAudioFile (tempFilePath f) (segmentsDir f)]
   \<and> filter is_Transcribe (new_calls w (snd (processAudioFile env f ch w))) =
       map (\<lambda>s. Transcribe (path_join (segmentsDir f) s)) segs
   \<and> filter is_PostMessage (new_calls w (snd (processAudioFile env f ch w))) =
       [PostMessage ch (result_text (file_name f)
          (concat (map (\<lambda>s. heard_text env (path_join (segmentsDir f) s) @ '' '') segs)))]
   \<and> (mset written' = mset written \<longrightarrow>
        segment_files (listing_after (entries_of (fs w (segmentsDir f))) written') = segs)
   \<and> (fs w (segmentsDir f) = None \<and> k \<le> 1000 \<and> mset written = mset (map segment_name [0..<k])
        \<longrightarrow> segs = map segment_name [0..<k])"
proof -
  from split_run_ok [OF assms refl, of ch]
  obtain w1 r where
    tr: "processAudioFile_try env f ch w = (r, Some (segmentsDir f), w1)"
    and calls: "new_calls w w1 =
        [Download (url_private f) (tempFilePath f), Stat (tempFilePath f),
         Mkdir (segmentsDir f), SplitAudioFile (tempFilePath f) (segmentsDir f),
         Ffprobe (tempFilePath f),
         Ffmpeg (tempFilePath f) (path_join (segmentsDir f) ''segment_%03d.mp3''),
         Readdir (segmentsDir f)]
        @ map (\<lambda>s. Transcribe (path_join (segmentsDir f) s)) segs
        @ [PostMessage ch (result_text (file_name f)
             (concat (map (\<lambda>s. heard_text env (path_join (segmentsDir f) s) @ '' '') segs)))]"
    by blast
  have 1: "filter is_SplitAudioFile (new_calls w (snd (processAudioFile env f ch w))) =
       [SplitAudioFile (tempFilePath f) (segmentsDir f)]"
    using run_filter [OF tr kinds_pipeline(3)] calls by simp
  have 2: "filter is_Transcribe (new_calls w (snd (processAudioFile env f ch w))) =
       map (\<lambda>s. Transcribe (path_join (segmentsDir f) s)) segs"
    using run_filter [OF tr kinds_pipeline(1)] calls by simp
  have 3: "filter is_PostMessage (new_calls w (snd (processAudioFile env f ch w))) =
       [PostMessage ch (result_text (file_name f)
          (concat (map (\<lambda>s. heard_text env (path_join (segmentsDir f) s) @ '' '') segs)))]"
    using run_filter [OF tr kinds_pipeline(2)] calls by simp
  have 4: "segment_files (listing_after (entries_of (fs w (segmentsDir f))) written') = segs"
    if "mset written' = mset written"
    unfolding assms(10) using that by (intro segment_files_perm listing_after_perm) simp_all
  have 5: "segs = map segment_name [0..<k]"
    if "fs w (segmentsDir f) = None \<and> k \<le> 1000 \<and> mset written = mset (map segment_name [0..<k])"
    unfolding assms(10) using that segment_files_generated [of k written] by simp
  from 1 2 3 4 5 show ?thesis by blast
qed

theorem split_path_transcript_witness:
  "filter is_SplitAudioFile (new_calls world0 (snd (processAudioFile
      (env_ok 41943040 [''segment_002.mp3'', ''segment_000.mp3'', ''segment_001.mp3'']
         (heard_table [(''/tmp/F1_segments/segment_000.mp3'', ''a''),
                       (''/tmp/F1_segments/segment_001.mp3'', ''b''),
                       (''/tmp/F1_segments/segment_002.mp3'', ''c'')] (Error ''boom'')))
      file1 ''C9'' world0))) = [SplitAudioFile ''/tmp/F1.mp3'' ''/tmp/F1_segments'']
   \<and> filter is_Transcribe (new_calls world0 (snd (processAudioFile
      (env_ok 41943040 [''segment_002.mp3'', ''segment_000.mp3'', ''segment_001.mp3'']
         (heard_table [(''/tmp/F1_segments/segment_000.mp3'', ''a''),
                       (''/tmp/F1_segments/segment_001.mp3'', ''b''),
                       (''/tmp/F1_segments/segment_002.mp3'', ''c'')] (Error ''boom'')))
      file1 ''C9'' world0))) =
     [Transcribe ''/tmp/F1_segments/segment_000.mp3'',
      Transcribe ''/tmp/F1_segments/segment_001.mp3'',
      Transcribe ''/tmp/F1_segments/segment_002.mp3'']
   \<and> filter is_PostMessage (new_calls world0 (snd (processAudioFile
      (env_ok 41943040 [''segment_002.mp3'', ''segment_000.mp3'', ''segment_001.mp3'']
         (heard_table [(''/tmp/F1_segments/segment_000.mp3'', ''a''),
                       (''/tmp/F1_segments/segment_001.mp3'', ''b''),
                       (''/tmp/F1_segments/segment_002.mp3'', ''c'')] (Error ''boom'')))
      file1 ''C9'' world0))) = [PostMessage ''C9'' (result_text ''talk.mp3'' ''a b c '')]"
proof -
  let ?written = "[''segment_002.mp3'', ''segment_000.mp3'', ''segment_001.mp3'']"
  let ?env = "env_ok 41943040 ?written
         (heard_table [(''/tmp/F1_segments/segment_000.mp3'', ''a''),
                       (''/tmp/F1_segments/segment_001.mp3'', ''b''),
                       (''/tmp/F1_segments/segment_002.mp3'', ''c'')] (Error ''boom''))"
  let ?segs = "map segment_name [0..<3]"
  have k: "fs world0 (segmentsDir file1) = None \<and> (3::nat) \<le> 1000 \<and>
      mset ?written = mset (map segment_name [0..<3])"
    by (simp add: first_segment_names example_defs)
  then have segs: "?segs = segment_files (listing_after (entries_of (fs world0 (segmentsDir file1))) ?written)"
    using segment_files_generated [of 3 ?written] by simp
  have h: "fetch ?env (url_private file1) = Fetched 41943040"
    "\<not> isDir (fs world0 (tempFilePath file1))"
    "stat_fault ?env (tempFilePath file1) = None"
    "26214400 < (41943040 :: nat)"
    "mkdir_fault ?env (segmentsDir file1) = None"
    "\<not> isFile (fs world0 (segmentsDir file1))"
    "ffprobe ?env (tempFilePath file1) = None"
    "ffmpeg ?env (tempFilePath file1) (segmentsDir file1) = FfmpegEnd ?written"
    "readdir_fault ?env (segmentsDir file1) = None"
    by (simp_all add: example_defs)
  have t: "\<forall>s\<in>set ?segs. \<not> isl (transcribe ?env (path_join (segmentsDir file1) s))"
    by (simp add: first_segment_names example_defs segmentsDir_def path_join_def)
  have e: "tempFilePath file1 = ''/tmp/F1.mp3''" "segmentsDir file1 = ''/tmp/F1_segments''"
    "file_name file1 = ''talk.mp3''"
    "map (\<lambda>s. Transcribe (path_join ''/tmp/F1_segments'' s)) ?segs =
     [Transcribe ''/tmp/F1_segments/segment_000.mp3'',
      Transcribe ''/tmp/F1_segments/segment_001.mp3'',
      Transcribe ''/tmp/F1_segments/segment_002.mp3'']"
    "concat (map (\<lambda>s. heard_text ?env (path_join ''/tmp/F1_segments'' s) @ '' '') ?segs) = ''a b c ''"
    by (simp_all add: first_segment_names example_defs tempFilePath_def segmentsDir_def
        path_join_def heard_text_def)
  from split_path_transcript [OF h segs t, where ch = "''C9''"]
  show ?thesis
    unfolding e by blast
qed

text \<open>
  C2 as stated fails on its own example: three segments transcribed to \<open>''a ''\<close>, \<open>''b ''\<close>
  and \<open>''c ''\<close> give the transcript \<open>''a  b  c  ''\<close>, since the loop appends a space after
  every text, whatever its last character.
\<close>

theorem joined_transcript_counterexample:
  "filter is_PostMessage (new_calls world0 (snd (processAudioFile
      (env_ok 41943040 [''segment_000.mp3'', ''segment_001.mp3'', ''segment_002.mp3'']
         (heard_table [(''/tmp/F1_segments/segment_000.mp3'', ''a ''),
                       (''/tmp/F1_segments/segment_001.mp3'', ''b ''),
                       (''/tmp/F1_segments/segment_002.mp3'', ''c '')] (Error ''boom'')))
      file1 ''C9'' world0))) = [PostMessage ''C9'' (result_text ''talk.mp3'' ''a  b  c  '')]
   \<and> result_text ''talk.mp3'' ''a  b  c  '' \<noteq> result_text ''talk.mp3'' ''a b c ''"
  by (simp add: run_defs example_defs result_text_def)

text \<open>
  C9, as the code has it. A run calls \<open>mkdir\<close> on its segment directory exactly once if
  the download and the size measurement succeed with more than 26,214,400 bytes, and not
  at all otherwise; in the second case the directory, if any, is left as it was. When the
  download fails the run fails with that error, no directory is made, and the temporary
  file (partial or absent) is gone afterwards if its removal does not fail.
\<close>

theorem segment_dir_made_iff_split:
  "filter is_Mkdir (new_calls w (snd (processAudioFile env f ch w))) =
     (if (\<exists>n. fetch env (url_private f) = Fetched n \<and> 26214400 < n)
         \<and> \<not> isDir (fs w (tempFilePath f)) \<and> stat_fault env (tempFilePath f) = None
      then [Mkdir (segmentsDir f)] else [])
   \<and> (\<not> ((\<exists>n. fetch env (url_private f) = Fetched n \<and> 26214400 < n)
         \<and> \<not> isDir (fs w (tempFilePath f)) \<and> stat_fault env (tempFilePath f) = None)
       \<longrightarrow> fs (snd (processAudioFile env f ch w)) (segmentsDir f) = fs w (segmentsDir f))
   \<and> (fst (downloadFile env (url_private f) (tempFilePath f) w) = Inl e
       \<longrightarrow> fst (processAudioFile env f ch w) = Inl e
         \<and> filter is_Mkdir (new_calls w (snd (processAudioFile env f ch w))) = []
         \<and> fs (snd (processAudioFile env f ch w)) (segmentsDir f) = fs w (segmentsDir f)
         \<and> (unlink_fault env (tempFilePath f) = None \<and> \<not> isDir (fs w (tempFilePath f))
             \<longrightarrow> fs (snd (processAudioFile env f ch w)) (tempFilePath f) = None))"
proof -
  let ?split = "(\<exists>n. fetch env (url_private f) = Fetched n \<and> 26214400 < n)
         \<and> \<not> isDir (fs w (tempFilePath f)) \<and> stat_fault env (tempFilePath f) = None"
  obtain r od w1 where t: "processAudioFile_try env f ch w = (r, od, w1)"
    by (cases "processAudioFile_try env f ch w") auto
  note m = try_mkdir_calls [OF t]
  have 1: "filter is_Mkdir (new_calls w (snd (processAudioFile env f ch w))) =
     (if ?split then [Mkdir (segmentsDir f)] else [])"
    using run_filter [OF t kinds_pipeline(4)] m by simp
  have 2: "fs (snd (processAudioFile env f ch w)) (segmentsDir f) = fs w (segmentsDir f)"
    if "\<not> ?split"
  proof -
    from m that have "od = None" "fs w1 (segmentsDir f) = fs w (segmentsDir f)"
      by auto
    with t run_dir_untouched [of env f ch w r w1] show ?thesis
      by simp
  qed
  have 3: "fst (processAudioFile env f ch w) = Inl e
         \<and> filter is_Mkdir (new_calls w (snd (processAudioFile env f ch w))) = []
         \<and> fs (snd (processAudioFile env f ch w)) (segmentsDir f) = fs w (segmentsDir f)
         \<and> (unlink_fault env (tempFilePath f) = None \<and> \<not> isDir (fs w (tempFilePath f))
             \<longrightarrow> fs (snd (processAudioFile env f ch w)) (tempFilePath f) = None)"
    if d: "fst (downloadFile env (url_private f) (tempFilePath f) w) = Inl e"
  proof -
    have ns: "\<not> ?split"
      using d downloadFile_ok [of env "url_private f" _ w "tempFilePath f"] by auto
    have "fst (processAudioFile_try env f ch w) = Inl e"
      using d by (cases "downloadFile env (url_private f) (tempFilePath f) w")
        (simp add: processAudioFile_try_def)
    then have "fst (processAudioFile env f ch w) = Inl e"
      by (simp add: run_fst)
    then show ?thesis
      using 1 2 ns removed_after_run(1) [of env f w ch] by simp
  qed
  from 1 2 3 show ?thesis by blast
qed

theorem segment_dir_made_iff_split_witness:
  "filter is_Mkdir (new_calls world0 (snd (processAudioFile
      (env_ok 30000000 [''segment_000.mp3''] (always (Inr ''hello''))) file1 ''C9'' world0))) =
     [Mkdir ''/tmp/F1_segments'']
   \<and> filter is_Mkdir (new_calls world0 (snd (processAudioFile
      (env_ok 26214400 [] (always (Inr ''hello''))) file1 ''C9'' world0))) = []
   \<and> fs (snd (processAudioFile
      (env_ok 26214400 [] (always (Inr ''hello''))) file1 ''C9'' world0)) ''/tmp/F1_segments'' = None
   \<and> fst (processAudioFile
      ((env_ok 100 [] (always (Inr ''hello'')))
         \<lparr>fetch := always (StreamFailed 10 (Error ''ECONNRESET''))\<rparr>)
      file1 ''C9'' world0) = Inl (Error ''ECONNRESET'')
   \<and> filter is_Mkdir (new_calls world0 (snd (processAudioFile
      ((env_ok 100 [] (always (Inr ''hello'')))
         \<lparr>fetch := always (StreamFailed 10 (Error ''ECONNRESET''))\<rparr>)
      file1 ''C9'' world0))) = []
   \<and> fs (snd (processAudioFile
      ((env_ok 100 [] (always (Inr ''hello'')))
         \<lparr>fetch := always (StreamFailed 10 (Error ''ECONNRESET''))\<rparr>)
      file1 ''C9'' world0)) ''/tmp/F1.mp3'' = None"
proof -
  let ?big = "env_ok 30000000 [''segment_000.mp3''] (always (Inr ''hello''))"
  let ?small = "env_ok 26214400 [] (always (Inr ''hello''))"
  let ?broken = "(env_ok 100 [] (always (Inr ''hello'')))
         \<lparr>fetch := always (StreamFailed 10 (Error ''ECONNRESET''))\<rparr>"
  have p: "tempFilePath file1 = ''/tmp/F1.mp3''" "segmentsDir file1 = ''/tmp/F1_segments''"
    by (simp_all add: example_defs tempFilePath_def segmentsDir_def)
  have a: "filter is_Mkdir (new_calls world0 (snd (processAudioFile ?big file1 ''C9'' world0))) =
     [Mkdir ''/tmp/F1_segments'']"
    using segment_dir_made_iff_split [where env = ?big and f = file1 and w = world0 and ch = "''C9''"]
    by (simp add: example_defs tempFilePath_def segmentsDir_def)
  have b: "filter is_Mkdir (new_calls world0 (snd (processAudioFile ?small file1 ''C9'' world0))) = []
     \<and> fs (snd (processAudioFile ?small file1 ''C9'' world0)) ''/tmp/F1_segments'' = None"
    using segment_dir_made_iff_split [where env = ?small and f = file1 and w = world0 and ch = "''C9''"]
    by (simp add: example_defs tempFilePath_def segmentsDir_def)
  have d: "fst (downloadFile ?broken (url_private file1) (tempFilePath file1) world0) =
      Inl (Error ''ECONNRESET'')"
    "unlink_fault ?broken (tempFilePath file1) = None \<and> \<not> isDir (fs world0 (tempFilePath file1))"
    by (simp_all add: example_defs downloadFile_def)
  have c: "fst (processAudioFile ?broken file1 ''C9'' world0) = Inl (Error ''ECONNRESET'')
     \<and> filter is_Mkdir (new_calls world0 (snd (processAudioFile ?broken file1 ''C9'' world0))) = []
     \<and> fs (snd (processAudioFile ?broken file1 ''C9'' world0)) ''/tmp/F1.mp3'' = None"
    using segment_dir_made_iff_split
      [where env = ?broken and f = file1 and w = world0 and ch = "''C9''"
         and e = "Error ''ECONNRESET''"] d
    unfolding p by blast
  from a b c show ?thesis by blast
qed

text \<open>
  C9 as stated fails: when the download breaks after some bytes were written and the
  removal of the partial file fails too, the file is still there after the run.
\<close>

theorem partial_file_left_counterexample:
  "fst (processAudioFile
      ((env_ok 100 [] (always (Inr ''hello'')))
         \<lparr>fetch := always (StreamFailed 10 (Error ''ECONNRESET'')),
           unlink_fault := always (Some (Error ''EPERM''))\<rparr>)
      file1 ''C9'' world0) = Inl (Error ''ECONNRESET'')
   \<and> fs (snd (processAudioFile
      ((env_ok 100 [] (always (Inr ''hello'')))
         \<lparr>fetch := always (StreamFailed 10 (Error ''ECONNRESET'')),
           unlink_fault := always (Some (Error ''EPERM''))\<rparr>)
      file1 ''C9'' world0)) ''/tmp/F1.mp3'' = Some (File 10)"
  by (simp add: run_defs example_defs)

text \<open>
  C10. The handler processes the audio files one after the other, in the order of the
  list. When the file \<open>x\<close> fails after the files \<open>pre\<close> succeeded, the loop ends there: the
  handler logs the error and says the failure notice once, and these two are the only
  calls made after the failed run, so no later file is downloaded or transcribed and
  nothing is posted for it. The files after \<open>x\<close> have no influence on what the handler
  does.
\<close>

theorem handler_aborts_on_first_failure:
  assumes "files event = Some fl"
    and "filter (\<lambda>file. startsWith (mimetype file) ''audio/'') fl = pre @ x # post"
    and "say env msg_started = None"
    and "processFiles env (channel event) pre (emit (Say msg_started) w) = (Inr (), w1)"
    and "processAudioFile env x (channel event) w1 = (Inl e, w2)"
  shows "handler env event w =
       sayMessage env msg_failed (emit (ConsoleError ''Error in app_mention event handler:'' e) w2)
   \<and> new_calls w2 (snd (handler env event w)) =
       [ConsoleError ''Error in app_mention event handler:'' e, Say msg_failed]
   \<and> filter is_Say (new_calls w (snd (handler env event w))) = [Say msg_started, Say msg_failed]
   \<and> handler env (event\<lparr>files := Some (pre @ [x])\<rparr>) w = handler env event w"
proof -
  let ?audio = "\<lambda>file. startsWith (mimetype file) ''audio/''"
  let ?w0 = "emit (Say msg_started) w"
  let ?w3 = "emit (ConsoleError ''Error in app_mention event handler:'' e) w2"
  have loop: "processFiles env (channel event) (pre @ x # post') ?w0 = (Inl e, w2)" for post'
    using assms(4,5) by (rule processFiles_stops)
  have ne: "fl \<noteq> []"
    using assms(2) by auto
  have "handler_try env event w = (Inl e, w2)"
    using assms(1-3) ne loop [of post] by (simp add: handler_try_def sayMessage_eq)
  then have h: "handler env event w = sayMessage env msg_failed ?w3"
    by (simp add: handler_def)
  have "\<forall>y\<in>set (pre @ x # post). ?audio y"
    using assms(2) [symmetric] by simp
  then have "filter ?audio (pre @ [x]) = pre @ [x]"
    by simp
  then have "handler_try env (event\<lparr>files := Some (pre @ [x])\<rparr>) w = (Inl e, w2)"
    using assms(3) loop [of "[]"] by (simp add: handler_try_def sayMessage_eq)
  then have h': "handler env (event\<lparr>files := Some (pre @ [x])\<rparr>) w = sayMessage env msg_failed ?w3"
    by (simp add: handler_def)
  have a: "appends run_call ?w0 w1"
    using processFiles_appends [OF assms(4) appends_refl] .
  from processAudioFile_appends [OF assms(5) a]
  obtain evs where evs: "trace w2 = trace w @ Say msg_started # evs" "list_all run_call evs"
    by (auto simp add: appends_def)
  have "filter is_Say evs = []"
    using evs(2) by (rule filter_none) (auto simp add: run_call_def pipeline_call_def cleanup_call_def)
  moreover have "new_calls w (snd (handler env event w)) =
      Say msg_started # evs @ [ConsoleError ''Error in app_mention event handler:'' e, Say msg_failed]"
    by (rule new_calls_app) (simp add: h sayMessage_eq evs(1))
  ultimately have says: "filter is_Say (new_calls w (snd (handler env event w))) =
      [Say msg_started, Say msg_failed]"
    by simp
  have "new_calls w2 (snd (handler env event w)) =
       [ConsoleError ''Error in app_mention event handler:'' e, Say msg_failed]"
    by (rule new_calls_app) (simp add: h sayMessage_eq)
  with h h' says show ?thesis by simp
qed

theorem handler_aborts_on_first_failure_witness:
  "filter is_Say (new_calls world0 (snd (handler
      ((env_ok 100 [] (always (Inr ''hello'')))
         \<lparr>fetch := always (RequestFailed (Error ''403''))\<rparr>)
      \<lparr>files = Some [file1, file1\<lparr>file_id := ''F2''\<rparr>], channel = ''C9''\<rparr> world0))) =
     [Say msg_started, Say msg_failed]
   \<and> filter is_Download (new_calls world0 (snd (handler
      ((env_ok 100 [] (always (Inr ''hello'')))
         \<lparr>fetch := always (RequestFailed (Error ''403''))\<rparr>)
      \<lparr>files = Some [file1, file1\<lparr>file_id := ''F2''\<rparr>], channel = ''C9''\<rparr> world0))) =
     [Download ''https://files/F1'' ''/tmp/F1.mp3'']
   \<and> handler
      ((env_ok 100 [] (always (Inr ''hello'')))
         \<lparr>fetch := always (RequestFailed (Error ''403''))\<rparr>)
      \<lparr>files = Some [file1], channel = ''C9''\<rparr> world0 =
     handler
      ((env_ok 100 [] (always (Inr ''hello'')))
         \<lparr>fetch := always (RequestFailed (Error ''403''))\<rparr>)
      \<lparr>files = Some [file1, file1\<lparr>file_id := ''F2''\<rparr>], channel = ''C9''\<rparr> world0"
proof -
  let ?env = "(env_ok 100 [] (always (Inr ''hello'')))
         \<lparr>fetch := always (RequestFailed (Error ''403''))\<rparr>"
  let ?ev = "\<lparr>files = Some [file1, file1\<lparr>file_id := ''F2''\<rparr>], channel = ''C9''\<rparr>"
  let ?w2 = "snd (processAudioFile ?env file1 ''C9'' (emit (Say msg_started) world0))"
  have 1: "files ?ev = Some [file1, file1\<lparr>file_id := ''F2''\<rparr>]"
    by simp
  have 2: "filter (\<lambda>file. startsWith (mimetype file) ''audio/'') [file1, file1\<lparr>file_id := ''F2''\<rparr>] =
      [] @ file1 # [file1\<lparr>file_id := ''F2''\<rparr>]"
    by (simp add: file1_def startsWith_def)
  have 3: "say ?env msg_started = None"
    by (simp add: example_defs)
  have 4: "processFiles ?env (channel ?ev) [] (emit (Say msg_started) world0) =
      (Inr (), emit (Say msg_started) world0)"
    by simp
  have 5: "processAudioFile ?env file1 (channel ?ev) (emit (Say msg_started) world0) =
      (Inl (Error ''403''), ?w2)"
    by (simp add: run_defs example_defs)
  note th = handler_aborts_on_first_failure [OF 1 2 3 4 5]
  from th have hd: "handler ?env ?ev world0 =
       sayMessage ?env msg_failed
         (emit (ConsoleError ''Error in app_mention event handler:'' (Error ''403'')) ?w2)"
    by (rule conjunct1)
  from th have says: "filter is_Say (new_calls world0 (snd (handler ?env ?ev world0))) =
      [Say msg_started, Say msg_failed]"
    by blast
  from th have "handler ?env (?ev\<lparr>files := Some ([] @ [file1])\<rparr>) world0 = handler ?env ?ev world0"
    by blast
  then have same: "handler ?env \<lparr>files = Some [file1], channel = ''C9''\<rparr> world0 =
      handler ?env ?ev world0"
    by simp
  have d: "filter is_Download (new_calls world0 (snd (handler ?env ?ev world0))) =
     [Download ''https://files/F1'' ''/tmp/F1.mp3'']"
    unfolding hd by (simp add: run_defs example_defs sayMessage_def emit_def)
  from says d same show ?thesis
    by blast
qed

end
